theory Spec2Isabelle
  imports Main "HOL-Library.Sublist"
begin

section \<open>Python strings\<close>

text \<open>
  A Python \<open>str\<close> is a sequence of Unicode code points; \<open>len\<close>, indexing, slicing and
  \<open>find\<close> count code points. A string is therefore a list of code points, each a natural
  number, and the Cyrillic literals of \<open>main.py\<close> are written out as such lists (the
  comment beside each gives a Latin transliteration).
\<close>

type_synonym ustr = "nat list"

text \<open>
  \<open>str.isspace\<close> for one code point: CPython's whitespace table, which \<open>str.strip()\<close>
  with no argument uses.
\<close>

definition isspace :: "nat \<Rightarrow> bool" where
  "isspace c =
     ((9 \<le> c \<and> c \<le> 13) \<or> (28 \<le> c \<and> c \<le> 32) \<or> c = 133 \<or> c = 160 \<or> c = 5760 \<or>
      (8192 \<le> c \<and> c \<le> 8202) \<or> c = 8232 \<or> c = 8233 \<or> c = 8239 \<or> c = 8287 \<or>
      c = 12288)"

definition py_strip :: "ustr \<Rightarrow> ustr" where
  "py_strip s = rev (dropWhile isspace (rev (dropWhile isspace s)))"

text \<open>
  \<open>str.lower()\<close> maps code point by code point. The table below is CPython's on Basic
  Latin, Latin-1, U+0130 and the Cyrillic block U+0400..U+04FF; code points outside these
  ranges are left unchanged by the model (CPython lower-cases further scripts, each code
  point to one code point). U+0130 (capital I with dot above) is the one code point of
  Unicode whose lower-case form has two code points (U+0069 U+0307), so \<open>lower\<close> can
  lengthen a string. The properties proved for all texts use of the table only that it
  maps each code point but U+0130 to one code point and leaves white space and the
  lower-case Cyrillic letters unchanged.
\<close>

definition lower_cp :: "nat \<Rightarrow> ustr" where
  "lower_cp c =
     (if 65 \<le> c \<and> c \<le> 90 then [c + 32]
      else if 192 \<le> c \<and> c \<le> 222 \<and> c \<noteq> 215 then [c + 32]
      else if c = 304 then [105, 775]
      else if 1024 \<le> c \<and> c \<le> 1039 then [c + 80]
      else if 1040 \<le> c \<and> c \<le> 1071 then [c + 32]
      else if ((1120 \<le> c \<and> c \<le> 1153) \<or> (1162 \<le> c \<and> c \<le> 1215) \<or>
               (1232 \<le> c \<and> c \<le> 1279)) \<and> even c then [c + 1]
      else if c = 1216 then [1231]
      else if 1217 \<le> c \<and> c \<le> 1230 \<and> odd c then [c + 1]
      else [c])"

definition py_lower :: "ustr \<Rightarrow> ustr" where
  "py_lower s = concat (map lower_cp s)"

text \<open>
  \<open>str.upper()\<close>, used once, on the rating: CPython's table on Basic Latin, Latin-1 and
  U+0400..U+045F.
\<close>

definition upper_cp :: "nat \<Rightarrow> ustr" where
  "upper_cp c =
     (if 97 \<le> c \<and> c \<le> 122 then [c - 32]
      else if c = 181 then [924]
      else if c = 223 then [83, 83]
      else if 224 \<le> c \<and> c \<le> 254 \<and> c \<noteq> 247 then [c - 32]
      else if c = 255 then [376]
      else if 1072 \<le> c \<and> c \<le> 1103 then [c - 32]
      else if 1104 \<le> c \<and> c \<le> 1119 then [c - 80]
      else [c])"

definition py_upper :: "ustr \<Rightarrow> ustr" where
  "py_upper s = concat (map upper_cp s)"

text \<open>\<open>sub in s\<close>: \<open>sub\<close> occurs in \<open>s\<close> as a contiguous substring.\<close>

fun py_in :: "ustr \<Rightarrow> ustr \<Rightarrow> bool" where
  "py_in sub [] = (sub = [])"
| "py_in sub (c # cs) = (prefix sub (c # cs) \<or> py_in sub cs)"

text \<open>
  \<open>s.find(sub)\<close>: the lowest index at which \<open>sub\<close> starts in \<open>s\<close>, or \<open>-1\<close>. The helper
  scans the rest of the string, carrying the index reached.
\<close>

fun find_from :: "ustr \<Rightarrow> ustr \<Rightarrow> int \<Rightarrow> int" where
  "find_from sub [] i = (if sub = [] then i else - 1)"
| "find_from sub (c # cs) i = (if prefix sub (c # cs) then i else find_from sub cs (i + 1))"

definition py_find :: "ustr \<Rightarrow> ustr \<Rightarrow> int" where
  "py_find s sub = find_from sub s 0"

text \<open>
  \<open>s[i:j]\<close>: a negative bound counts from the end, every bound is clamped to
  \<open>0..len(s)\<close>, and the slice is empty when the bounds cross.
\<close>

definition py_slice :: "ustr \<Rightarrow> int \<Rightarrow> int \<Rightarrow> ustr" where
  "py_slice s i j =
     (let n = int (length s);
          lo = (if i < 0 then max 0 (i + n) else min i n);
          hi = (if j < 0 then max 0 (j + n) else min j n)
      in take (nat (hi - lo)) (drop (nat lo) s))"

text \<open>\<open>sep.join(parts)\<close>.\<close>

fun py_join :: "ustr \<Rightarrow> ustr list \<Rightarrow> ustr" where
  "py_join sep [] = []"
| "py_join sep [p] = p"
| "py_join sep (p # q # ps) = p @ sep @ py_join sep (q # ps)"

text \<open>\<open>str(n)\<close> for a length: the decimal digits of a natural number.\<close>

function str_of_nat :: "nat \<Rightarrow> ustr" where
  "str_of_nat n = (if n < 10 then [48 + n] else str_of_nat (n div 10) @ [48 + n mod 10])"
  by pat_completeness auto
termination
  by (relation "measure id") auto

declare str_of_nat.simps [simp del]

section \<open>Dictionaries and errors\<close>

text \<open>
  The findings and the chat exchanges are Python dicts from \<open>str\<close> keys to \<open>str\<close>
  values, built by literals: association lists in the literal's key order. \<open>d[k]\<close>
  raises \<open>KeyError\<close> on a missing key, \<open>d.get(k)\<close> returns \<open>None\<close>.
\<close>

type_synonym pydict = "(ustr \<times> ustr) list"

datatype error = KeyError ustr | HTTPException nat ustr

definition getitem :: "pydict \<Rightarrow> ustr \<Rightarrow> error + ustr" where
  "getitem d k = (case map_of d k of None \<Rightarrow> Inl (KeyError k) | Some v \<Rightarrow> Inr v)"

definition dict_get :: "pydict \<Rightarrow> ustr \<Rightarrow> ustr option" where
  "dict_get d k = map_of d k"

section \<open>String literals of main.py\<close>

definition rt_shtrafnye_sankcii :: ustr where \<comment> \<open>shtrafnye sankcii\<close>
  "rt_shtrafnye_sankcii =
    [1096, 1090, 1088, 1072, 1092, 1085, 1099, 1077, 32, 1089, 1072, 1085, 1082, 1094,
     1080, 1080]"

definition kw_shtraf :: ustr where \<comment> \<open>shtraf\<close>
  "kw_shtraf =
    [1096, 1090, 1088, 1072, 1092]"

definition kw_penya :: ustr where \<comment> \<open>penya\<close>
  "kw_penya =
    [1087, 1077, 1085, 1103]"

definition kw_neustojka :: ustr where \<comment> \<open>neustojka\<close>
  "kw_neustojka =
    [1085, 1077, 1091, 1089, 1090, 1086, 1081, 1082, 1072]"

definition kw_sankcii :: ustr where \<comment> \<open>sankcii\<close>
  "kw_sankcii =
    [1089, 1072, 1085, 1082, 1094, 1080, 1080]"

definition rt_odnostoronnie_usloviya :: ustr where \<comment> \<open>odnostoronnie usloviya\<close>
  "rt_odnostoronnie_usloviya =
    [1086, 1076, 1085, 1086, 1089, 1090, 1086, 1088, 1086, 1085, 1085, 1080, 1077, 32,
     1091, 1089, 1083, 1086, 1074, 1080, 1103]"

definition kw_odnostoronn :: ustr where \<comment> \<open>odnostoronn\<close>
  "kw_odnostoronn =
    [1086, 1076, 1085, 1086, 1089, 1090, 1086, 1088, 1086, 1085, 1085]"

definition kw_v_lyuboe_vremya :: ustr where \<comment> \<open>v lyuboe vremya\<close>
  "kw_v_lyuboe_vremya =
    [1074, 32, 1083, 1102, 1073, 1086, 1077, 32, 1074, 1088, 1077, 1084, 1103]"

definition kw_po_svoemu_usmotreniyu :: ustr where \<comment> \<open>po svoemu usmotreniyu\<close>
  "kw_po_svoemu_usmotreniyu =
    [1087, 1086, 32, 1089, 1074, 1086, 1077, 1084, 1091, 32, 1091, 1089, 1084, 1086,
     1090, 1088, 1077, 1085, 1080, 1102]"

definition kw_vprave_rastorgnut :: ustr where \<comment> \<open>vprave rastorgnut'\<close>
  "kw_vprave_rastorgnut =
    [1074, 1087, 1088, 1072, 1074, 1077, 32, 1088, 1072, 1089, 1090, 1086, 1088, 1075,
     1085, 1091, 1090, 1100]"

definition rt_vysokaya_otvetstvennost :: ustr where \<comment> \<open>vysokaya otvetstvennost'\<close>
  "rt_vysokaya_otvetstvennost =
    [1074, 1099, 1089, 1086, 1082, 1072, 1103, 32, 1086, 1090, 1074, 1077, 1090, 1089,
     1090, 1074, 1077, 1085, 1085, 1086, 1089, 1090, 1100]"

definition kw_polnaya_otvetstvennost :: ustr where \<comment> \<open>polnaya otvetstvennost'\<close>
  "kw_polnaya_otvetstvennost =
    [1087, 1086, 1083, 1085, 1072, 1103, 32, 1086, 1090, 1074, 1077, 1090, 1089, 1090,
     1074, 1077, 1085, 1085, 1086, 1089, 1090, 1100]"

definition kw_vozmeshchenie_vseh :: ustr where \<comment> \<open>vozmeshchenie vseh\<close>
  "kw_vozmeshchenie_vseh =
    [1074, 1086, 1079, 1084, 1077, 1097, 1077, 1085, 1080, 1077, 32, 1074, 1089, 1077,
     1093]"

definition kw_solidarnaya_otvetstvennost :: ustr where \<comment> \<open>solidarnaya otvetstvennost'\<close>
  "kw_solidarnaya_otvetstvennost =
    [1089, 1086, 1083, 1080, 1076, 1072, 1088, 1085, 1072, 1103, 32, 1086, 1090, 1074,
     1077, 1090, 1089, 1090, 1074, 1077, 1085, 1085, 1086, 1089, 1090, 1100]"

definition rt_neopredelennye_sroki :: ustr where \<comment> \<open>neopredelennye sroki\<close>
  "rt_neopredelennye_sroki =
    [1085, 1077, 1086, 1087, 1088, 1077, 1076, 1077, 1083, 1077, 1085, 1085, 1099, 1077,
     32, 1089, 1088, 1086, 1082, 1080]"

definition kw_razumnyj_srok :: ustr where \<comment> \<open>razumnyj srok\<close>
  "kw_razumnyj_srok =
    [1088, 1072, 1079, 1091, 1084, 1085, 1099, 1081, 32, 1089, 1088, 1086, 1082]"

definition kw_v_kratchajshie_sroki :: ustr where \<comment> \<open>v kratchajshie sroki\<close>
  "kw_v_kratchajshie_sroki =
    [1074, 32, 1082, 1088, 1072, 1090, 1095, 1072, 1081, 1096, 1080, 1077, 32, 1089,
     1088, 1086, 1082, 1080]"

definition kw_nezamedlitelno :: ustr where \<comment> \<open>nezamedlitel'no\<close>
  "kw_nezamedlitelno =
    [1085, 1077, 1079, 1072, 1084, 1077, 1076, 1083, 1080, 1090, 1077, 1083, 1100, 1085,
     1086]"

definition kw_bez_promedleniya :: ustr where \<comment> \<open>bez promedleniya\<close>
  "kw_bez_promedleniya =
    [1073, 1077, 1079, 32, 1087, 1088, 1086, 1084, 1077, 1076, 1083, 1077, 1085, 1080,
     1103]"

definition rt_finansovye_riski :: ustr where \<comment> \<open>finansovye riski\<close>
  "rt_finansovye_riski =
    [1092, 1080, 1085, 1072, 1085, 1089, 1086, 1074, 1099, 1077, 32, 1088, 1080, 1089,
     1082, 1080]"

definition kw_za_svoj_schet :: ustr where \<comment> \<open>za svoj schet\<close>
  "kw_za_svoj_schet =
    [1079, 1072, 32, 1089, 1074, 1086, 1081, 32, 1089, 1095, 1077, 1090]"

definition kw_bez_vozmeshcheniya :: ustr where \<comment> \<open>bez vozmeshcheniya\<close>
  "kw_bez_vozmeshcheniya =
    [1073, 1077, 1079, 32, 1074, 1086, 1079, 1084, 1077, 1097, 1077, 1085, 1080, 1103]"

definition kw_bezvozmezdno :: ustr where \<comment> \<open>bezvozmezdno\<close>
  "kw_bezvozmezdno =
    [1073, 1077, 1079, 1074, 1086, 1079, 1084, 1077, 1079, 1076, 1085, 1086]"

definition kw_ubytki_pokupatelya :: ustr where \<comment> \<open>ubytki pokupatelya\<close>
  "kw_ubytki_pokupatelya =
    [1091, 1073, 1099, 1090, 1082, 1080, 32, 1087, 1086, 1082, 1091, 1087, 1072, 1090,
     1077, 1083, 1103]"

definition bt_garantii :: ustr where \<comment> \<open>garantii\<close>
  "bt_garantii =
    [1075, 1072, 1088, 1072, 1085, 1090, 1080, 1080]"

definition kw_garantiya :: ustr where \<comment> \<open>garantiya\<close>
  "kw_garantiya =
    [1075, 1072, 1088, 1072, 1085, 1090, 1080, 1103]"

definition kw_garantiruet :: ustr where \<comment> \<open>garantiruet\<close>
  "kw_garantiruet =
    [1075, 1072, 1088, 1072, 1085, 1090, 1080, 1088, 1091, 1077, 1090]"

definition kw_obyazuetsya :: ustr where \<comment> \<open>obyazuetsya\<close>
  "kw_obyazuetsya =
    [1086, 1073, 1103, 1079, 1091, 1077, 1090, 1089, 1103]"

definition bt_zashchita_interesov :: ustr where \<comment> \<open>zashchita interesov\<close>
  "bt_zashchita_interesov =
    [1079, 1072, 1097, 1080, 1090, 1072, 32, 1080, 1085, 1090, 1077, 1088, 1077, 1089,
     1086, 1074]"

definition kw_strahovanie :: ustr where \<comment> \<open>strahovanie\<close>
  "kw_strahovanie =
    [1089, 1090, 1088, 1072, 1093, 1086, 1074, 1072, 1085, 1080, 1077]"

definition kw_kompensaciya :: ustr where \<comment> \<open>kompensaciya\<close>
  "kw_kompensaciya =
    [1082, 1086, 1084, 1087, 1077, 1085, 1089, 1072, 1094, 1080, 1103]"

definition kw_vozmeshchenie :: ustr where \<comment> \<open>vozmeshchenie\<close>
  "kw_vozmeshchenie =
    [1074, 1086, 1079, 1084, 1077, 1097, 1077, 1085, 1080, 1077]"

definition bt_gibkie_usloviya :: ustr where \<comment> \<open>gibkie usloviya\<close>
  "bt_gibkie_usloviya =
    [1075, 1080, 1073, 1082, 1080, 1077, 32, 1091, 1089, 1083, 1086, 1074, 1080, 1103]"

definition kw_po_soglasovaniyu :: ustr where \<comment> \<open>po soglasovaniyu\<close>
  "kw_po_soglasovaniyu =
    [1087, 1086, 32, 1089, 1086, 1075, 1083, 1072, 1089, 1086, 1074, 1072, 1085, 1080,
     1102]"

definition kw_vozmozhnost_izmeneniya :: ustr where \<comment> \<open>vozmozhnost' izmeneniya\<close>
  "kw_vozmozhnost_izmeneniya =
    [1074, 1086, 1079, 1084, 1086, 1078, 1085, 1086, 1089, 1090, 1100, 32, 1080, 1079,
     1084, 1077, 1085, 1077, 1085, 1080, 1103]"

definition kw_pravo_vybora :: ustr where \<comment> \<open>pravo vybora\<close>
  "kw_pravo_vybora =
    [1087, 1088, 1072, 1074, 1086, 32, 1074, 1099, 1073, 1086, 1088, 1072]"

definition bt_vozvrat_sredstv :: ustr where \<comment> \<open>vozvrat sredstv\<close>
  "bt_vozvrat_sredstv =
    [1074, 1086, 1079, 1074, 1088, 1072, 1090, 32, 1089, 1088, 1077, 1076, 1089, 1090,
     1074]"

definition kw_vozvrat :: ustr where \<comment> \<open>vozvrat\<close>
  "kw_vozvrat =
    [1074, 1086, 1079, 1074, 1088, 1072, 1090]"

definition kw_vozmeshchenie_platezha :: ustr where \<comment> \<open>vozmeshchenie platezha\<close>
  "kw_vozmeshchenie_platezha =
    [1074, 1086, 1079, 1084, 1077, 1097, 1077, 1085, 1080, 1077, 32, 1087, 1083, 1072,
     1090, 1077, 1078, 1072]"

definition kw_kompensaciya_rashodov :: ustr where \<comment> \<open>kompensaciya rashodov\<close>
  "kw_kompensaciya_rashodov =
    [1082, 1086, 1084, 1087, 1077, 1085, 1089, 1072, 1094, 1080, 1103, 32, 1088, 1072,
     1089, 1093, 1086, 1076, 1086, 1074]"

definition kw_v_ustanovlennom_poryadke :: ustr where \<comment> \<open>v ustanovlennom poryadke\<close>
  "kw_v_ustanovlennom_poryadke =
    [1074, 32, 1091, 1089, 1090, 1072, 1085, 1086, 1074, 1083, 1077, 1085, 1085, 1086,
     1084, 32, 1087, 1086, 1088, 1103, 1076, 1082, 1077]"

definition kw_sootvetstvuyushchie_mery :: ustr where \<comment> \<open>sootvetstvuyushchie mery\<close>
  "kw_sootvetstvuyushchie_mery =
    [1089, 1086, 1086, 1090, 1074, 1077, 1090, 1089, 1090, 1074, 1091, 1102, 1097, 1080,
     1077, 32, 1084, 1077, 1088, 1099]"

definition kw_nadlezhashchim_obrazom :: ustr where \<comment> \<open>nadlezhashchim obrazom\<close>
  "kw_nadlezhashchim_obrazom =
    [1085, 1072, 1076, 1083, 1077, 1078, 1072, 1097, 1080, 1084, 32, 1086, 1073, 1088,
     1072, 1079, 1086, 1084]"

definition kw_sushchestvennye_narusheniya :: ustr where \<comment> \<open>sushchestvennye narusheniya\<close>
  "kw_sushchestvennye_narusheniya =
    [1089, 1091, 1097, 1077, 1089, 1090, 1074, 1077, 1085, 1085, 1099, 1077, 32, 1085,
     1072, 1088, 1091, 1096, 1077, 1085, 1080, 1103]"

definition kw_fors_mazhornye_obstoyatelstva :: ustr where \<comment> \<open>fors-mazhornye obstoyatel'stva\<close>
  "kw_fors_mazhornye_obstoyatelstva =
    [1092, 1086, 1088, 1089, 45, 1084, 1072, 1078, 1086, 1088, 1085, 1099, 1077, 32,
     1086, 1073, 1089, 1090, 1086, 1103, 1090, 1077, 1083, 1100, 1089, 1090, 1074, 1072]"

definition kw_inye_obstoyatelstva :: ustr where \<comment> \<open>inye obstoyatel'stva\<close>
  "kw_inye_obstoyatelstva =
    [1080, 1085, 1099, 1077, 32, 1086, 1073, 1089, 1090, 1086, 1103, 1090, 1077, 1083,
     1100, 1089, 1090, 1074, 1072]"

definition kw_po_oboyudnomu_soglasiyu :: ustr where \<comment> \<open>po oboyudnomu soglasiyu\<close>
  "kw_po_oboyudnomu_soglasiyu =
    [1087, 1086, 32, 1086, 1073, 1086, 1102, 1076, 1085, 1086, 1084, 1091, 32, 1089,
     1086, 1075, 1083, 1072, 1089, 1080, 1102]"

definition kw_v_isklyuchitelnyh_sluchayah :: ustr where \<comment> \<open>v isklyuchitel'nyh sluchayah\<close>
  "kw_v_isklyuchitelnyh_sluchayah =
    [1074, 32, 1080, 1089, 1082, 1083, 1102, 1095, 1080, 1090, 1077, 1083, 1100, 1085,
     1099, 1093, 32, 1089, 1083, 1091, 1095, 1072, 1103, 1093]"

definition k_type :: ustr where \<comment> \<open>type\<close>
  "k_type =
    [116, 121, 112, 101]"

definition k_keyword :: ustr where \<comment> \<open>keyword\<close>
  "k_keyword =
    [107, 101, 121, 119, 111, 114, 100]"

definition k_context :: ustr where \<comment> \<open>context\<close>
  "k_context =
    [99, 111, 110, 116, 101, 120, 116]"

definition k_severity :: ustr where \<comment> \<open>severity\<close>
  "k_severity =
    [115, 101, 118, 101, 114, 105, 116, 121]"

definition k_recommendation :: ustr where \<comment> \<open>recommendation\<close>
  "k_recommendation =
    [114, 101, 99, 111, 109, 109, 101, 110, 100, 97, 116, 105, 111, 110]"

definition k_value :: ustr where \<comment> \<open>value\<close>
  "k_value =
    [118, 97, 108, 117, 101]"

definition k_phrase :: ustr where \<comment> \<open>phrase\<close>
  "k_phrase =
    [112, 104, 114, 97, 115, 101]"

definition k_explanation :: ustr where \<comment> \<open>explanation\<close>
  "k_explanation =
    [101, 120, 112, 108, 97, 110, 97, 116, 105, 111, 110]"

definition k_suggestion :: ustr where \<comment> \<open>suggestion\<close>
  "k_suggestion =
    [115, 117, 103, 103, 101, 115, 116, 105, 111, 110]"

definition k_question :: ustr where \<comment> \<open>question\<close>
  "k_question =
    [113, 117, 101, 115, 116, 105, 111, 110]"

definition k_answer :: ustr where \<comment> \<open>answer\<close>
  "k_answer =
    [97, 110, 115, 119, 101, 114]"

definition k_timestamp :: ustr where \<comment> \<open>timestamp\<close>
  "k_timestamp =
    [116, 105, 109, 101, 115, 116, 97, 109, 112]"

definition s_vysokij :: ustr where \<comment> \<open>vysokij\<close>
  "s_vysokij =
    [1074, 1099, 1089, 1086, 1082, 1080, 1081]"

definition s_srednij :: ustr where \<comment> \<open>srednij\<close>
  "s_srednij =
    [1089, 1088, 1077, 1076, 1085, 1080, 1081]"

definition s_vysokaya :: ustr where \<comment> \<open>vysokaya\<close>
  "s_vysokaya =
    [1074, 1099, 1089, 1086, 1082, 1072, 1103]"

definition s_srednyaya :: ustr where \<comment> \<open>srednyaya\<close>
  "s_srednyaya =
    [1089, 1088, 1077, 1076, 1085, 1103, 1103]"

definition s_riskovan :: ustr where \<comment> \<open>riskovan\<close>
  "s_riskovan =
    [1088, 1080, 1089, 1082, 1086, 1074, 1072, 1085]"

definition s_trebuet_vnimaniya :: ustr where \<comment> \<open>trebuet vnimaniya\<close>
  "s_trebuet_vnimaniya =
    [1090, 1088, 1077, 1073, 1091, 1077, 1090, 32, 1074, 1085, 1080, 1084, 1072, 1085,
     1080, 1103]"

definition s_bezopasen :: ustr where \<comment> \<open>bezopasen\<close>
  "s_bezopasen =
    [1073, 1077, 1079, 1086, 1087, 1072, 1089, 1077, 1085]"

definition s_rec_prefix :: ustr where \<comment> \<open>Rekomenduetsya peresmotret' usloviya, svyazannye s '\<close>
  "s_rec_prefix =
    [1056, 1077, 1082, 1086, 1084, 1077, 1085, 1076, 1091, 1077, 1090, 1089, 1103, 32,
     1087, 1077, 1088, 1077, 1089, 1084, 1086, 1090, 1088, 1077, 1090, 1100, 32, 1091,
     1089, 1083, 1086, 1074, 1080, 1103, 44, 32, 1089, 1074, 1103, 1079, 1072, 1085,
     1085, 1099, 1077, 32, 1089, 32, 39]"

definition s_quote :: ustr where \<comment> \<open>'\<close>
  "s_quote =
    [39]"

definition s_expl_prefix :: ustr where \<comment> \<open>Fraza '\<close>
  "s_expl_prefix =
    [1060, 1088, 1072, 1079, 1072, 32, 39]"

definition s_expl_suffix :: ustr where \<comment> \<open>' trebuet utochneniya konkretnyh uslovij\<close>
  "s_expl_suffix =
    [39, 32, 1090, 1088, 1077, 1073, 1091, 1077, 1090, 32, 1091, 1090, 1086, 1095, 1085,
     1077, 1085, 1080, 1103, 32, 1082, 1086, 1085, 1082, 1088, 1077, 1090, 1085, 1099,
     1093, 32, 1091, 1089, 1083, 1086, 1074, 1080, 1081]"

definition s_suggestion :: ustr where \<comment> \<open>Rekomenduetsya zaprosit' detalizaciyu dannogo punkta\<close>
  "s_suggestion =
    [1056, 1077, 1082, 1086, 1084, 1077, 1085, 1076, 1091, 1077, 1090, 1089, 1103, 32,
     1079, 1072, 1087, 1088, 1086, 1089, 1080, 1090, 1100, 32, 1076, 1077, 1090, 1072,
     1083, 1080, 1079, 1072, 1094, 1080, 1102, 32, 1076, 1072, 1085, 1085, 1086, 1075,
     1086, 32, 1087, 1091, 1085, 1082, 1090, 1072]"

definition s_marker :: ustr where \<comment> \<open>...\<close>
  "s_marker =
    [46, 46, 46]"

definition s_newline :: ustr where \<comment> \<open><LF>\<close>
  "s_newline =
    [10]"

definition s_empty :: ustr where \<comment> \<open>\<close>
  "s_empty =
    []"

definition sum_head :: ustr where \<comment> \<open><LF>Dokument '\<close>
  "sum_head =
    [10, 1044, 1086, 1082, 1091, 1084, 1077, 1085, 1090, 32, 39]"

definition sum_risks :: ustr where \<comment> \<open>' proanalizirovan:<LF><LF><U+1F50D> OSNOVNYE NAHODKI:<LF><U+2022> Riskov najdeno: \<close>
  "sum_risks =
    [39, 32, 1087, 1088, 1086, 1072, 1085, 1072, 1083, 1080, 1079, 1080, 1088, 1086,
     1074, 1072, 1085, 58, 10, 10, 128269, 32, 1054, 1057, 1053, 1054, 1042, 1053, 1067,
     1045, 32, 1053, 1040, 1061, 1054, 1044, 1050, 1048, 58, 10, 8226, 32, 1056, 1080,
     1089, 1082, 1086, 1074, 32, 1085, 1072, 1081, 1076, 1077, 1085, 1086, 58, 32]"

definition sum_benefits :: ustr where \<comment> \<open><LF><U+2022> Vygodnyh uslovij: \<close>
  "sum_benefits =
    [10, 8226, 32, 1042, 1099, 1075, 1086, 1076, 1085, 1099, 1093, 32, 1091, 1089, 1083,
     1086, 1074, 1080, 1081, 58, 32]"

definition sum_unclear :: ustr where \<comment> \<open><LF><U+2022> Neyasnyh formulirovok: \<close>
  "sum_unclear =
    [10, 8226, 32, 1053, 1077, 1103, 1089, 1085, 1099, 1093, 32, 1092, 1086, 1088, 1084,
     1091, 1083, 1080, 1088, 1086, 1074, 1086, 1082, 58, 32]"

definition sum_rating :: ustr where \<comment> \<open><LF><LF><U+2696><U+FE0F> OBShchAYa OCENKA: \<close>
  "sum_rating =
    [10, 10, 9878, 65039, 32, 1054, 1041, 1065, 1040, 1071, 32, 1054, 1062, 1045, 1053,
     1050, 1040, 58, 32]"

definition sum_recs :: ustr where \<comment> \<open><LF><LF><U+1F4A1> REKOMENDACII:<LF>\<close>
  "sum_recs =
    [10, 10, 128161, 32, 1056, 1045, 1050, 1054, 1052, 1045, 1053, 1044, 1040, 1062,
     1048, 1048, 58, 10]"

definition sum_tail :: ustr where \<comment> \<open><LF><LF><U+1F4CB> Etot analiz osnovan na bazovyh pravilah. Dlya detal'nogo izucheniya rekomenduetsya konsul'taciya s yuristom.<LF>        \<close>
  "sum_tail =
    [10, 10, 128203, 32, 1069, 1090, 1086, 1090, 32, 1072, 1085, 1072, 1083, 1080, 1079,
     32, 1086, 1089, 1085, 1086, 1074, 1072, 1085, 32, 1085, 1072, 32, 1073, 1072, 1079,
     1086, 1074, 1099, 1093, 32, 1087, 1088, 1072, 1074, 1080, 1083, 1072, 1093, 46, 32,
     1044, 1083, 1103, 32, 1076, 1077, 1090, 1072, 1083, 1100, 1085, 1086, 1075, 1086,
     32, 1080, 1079, 1091, 1095, 1077, 1085, 1080, 1103, 32, 1088, 1077, 1082, 1086,
     1084, 1077, 1085, 1076, 1091, 1077, 1090, 1089, 1103, 32, 1082, 1086, 1085, 1089,
     1091, 1083, 1100, 1090, 1072, 1094, 1080, 1103, 32, 1089, 32, 1102, 1088, 1080,
     1089, 1090, 1086, 1084, 46, 10, 32, 32, 32, 32, 32, 32, 32, 32]"

definition sum_rec_shtraf :: ustr where \<comment> \<open><U+2022> Obratite osoboe vnimanie na shtrafnye sankcii\<close>
  "sum_rec_shtraf =
    [8226, 32, 1054, 1073, 1088, 1072, 1090, 1080, 1090, 1077, 32, 1086, 1089, 1086,
     1073, 1086, 1077, 32, 1074, 1085, 1080, 1084, 1072, 1085, 1080, 1077, 32, 1085,
     1072, 32, 1096, 1090, 1088, 1072, 1092, 1085, 1099, 1077, 32, 1089, 1072, 1085,
     1082, 1094, 1080, 1080]"

definition sum_rec_unclear :: ustr where \<comment> \<open><U+2022> Utochnite neopredelennye formulirovki\<close>
  "sum_rec_unclear =
    [8226, 32, 1059, 1090, 1086, 1095, 1085, 1080, 1090, 1077, 32, 1085, 1077, 1086,
     1087, 1088, 1077, 1076, 1077, 1083, 1077, 1085, 1085, 1099, 1077, 32, 1092, 1086,
     1088, 1084, 1091, 1083, 1080, 1088, 1086, 1074, 1082, 1080]"

definition sum_rec_benefits :: ustr where \<comment> \<open><U+2022> Ispol'zujte najdennye garantii v svoyu pol'zu\<close>
  "sum_rec_benefits =
    [8226, 32, 1048, 1089, 1087, 1086, 1083, 1100, 1079, 1091, 1081, 1090, 1077, 32,
     1085, 1072, 1081, 1076, 1077, 1085, 1085, 1099, 1077, 32, 1075, 1072, 1088, 1072,
     1085, 1090, 1080, 1080, 32, 1074, 32, 1089, 1074, 1086, 1102, 32, 1087, 1086, 1083,
     1100, 1079, 1091]"

definition kw_risk :: ustr where \<comment> \<open>risk\<close>
  "kw_risk =
    [1088, 1080, 1089, 1082]"

definition kw_opasn :: ustr where \<comment> \<open>opasn\<close>
  "kw_opasn =
    [1086, 1087, 1072, 1089, 1085]"

definition kw_vygod :: ustr where \<comment> \<open>vygod\<close>
  "kw_vygod =
    [1074, 1099, 1075, 1086, 1076]"

definition kw_plyus :: ustr where \<comment> \<open>plyus\<close>
  "kw_plyus =
    [1087, 1083, 1102, 1089]"

definition kw_horosh :: ustr where \<comment> \<open>horosh\<close>
  "kw_horosh =
    [1093, 1086, 1088, 1086, 1096]"

definition kw_neponyatn :: ustr where \<comment> \<open>neponyatn\<close>
  "kw_neponyatn =
    [1085, 1077, 1087, 1086, 1085, 1103, 1090, 1085]"

definition kw_neyasn :: ustr where \<comment> \<open>neyasn\<close>
  "kw_neyasn =
    [1085, 1077, 1103, 1089, 1085]"

definition kw_chto_oznachaet :: ustr where \<comment> \<open>chto oznachaet\<close>
  "kw_chto_oznachaet =
    [1095, 1090, 1086, 32, 1086, 1079, 1085, 1072, 1095, 1072, 1077, 1090]"

definition kw_podpisyvat :: ustr where \<comment> \<open>podpisyvat'\<close>
  "kw_podpisyvat =
    [1087, 1086, 1076, 1087, 1080, 1089, 1099, 1074, 1072, 1090, 1100]"

definition kw_soglasitsya :: ustr where \<comment> \<open>soglasit'sya\<close>
  "kw_soglasitsya =
    [1089, 1086, 1075, 1083, 1072, 1089, 1080, 1090, 1100, 1089, 1103]"

definition kw_stoit_li :: ustr where \<comment> \<open>stoit li\<close>
  "kw_stoit_li =
    [1089, 1090, 1086, 1080, 1090, 32, 1083, 1080]"

definition s_bullet :: ustr where \<comment> \<open><U+2022> \<close>
  "s_bullet =
    [8226, 32]"

definition s_colon :: ustr where \<comment> \<open>: \<close>
  "s_colon =
    [58, 32]"

definition ans_risks_head :: ustr where \<comment> \<open><U+1F6A8> V dokumente najdeny sleduyushchie riski:<LF><LF>\<close>
  "ans_risks_head =
    [128680, 32, 1042, 32, 1076, 1086, 1082, 1091, 1084, 1077, 1085, 1090, 1077, 32,
     1085, 1072, 1081, 1076, 1077, 1085, 1099, 32, 1089, 1083, 1077, 1076, 1091, 1102,
     1097, 1080, 1077, 32, 1088, 1080, 1089, 1082, 1080, 58, 10, 10]"

definition ans_no_risks :: ustr where \<comment> \<open>V dokumente ne najdeno ser'eznyh riskov.\<close>
  "ans_no_risks =
    [1042, 32, 1076, 1086, 1082, 1091, 1084, 1077, 1085, 1090, 1077, 32, 1085, 1077, 32,
     1085, 1072, 1081, 1076, 1077, 1085, 1086, 32, 1089, 1077, 1088, 1100, 1077, 1079,
     1085, 1099, 1093, 32, 1088, 1080, 1089, 1082, 1086, 1074, 46]"

definition ans_benefits_head :: ustr where \<comment> \<open><U+2705> Vygodnye usloviya v dokumente:<LF><LF>\<close>
  "ans_benefits_head =
    [9989, 32, 1042, 1099, 1075, 1086, 1076, 1085, 1099, 1077, 32, 1091, 1089, 1083,
     1086, 1074, 1080, 1103, 32, 1074, 32, 1076, 1086, 1082, 1091, 1084, 1077, 1085,
     1090, 1077, 58, 10, 10]"

definition ans_no_benefits :: ustr where \<comment> \<open>Yavnyh vygodnyh uslovij ne najdeno.\<close>
  "ans_no_benefits =
    [1071, 1074, 1085, 1099, 1093, 32, 1074, 1099, 1075, 1086, 1076, 1085, 1099, 1093,
     32, 1091, 1089, 1083, 1086, 1074, 1080, 1081, 32, 1085, 1077, 32, 1085, 1072, 1081,
     1076, 1077, 1085, 1086, 46]"

definition ans_unclear_head :: ustr where \<comment> \<open><U+2753> Neyasnye formulirovki:<LF><LF>\<close>
  "ans_unclear_head =
    [10067, 32, 1053, 1077, 1103, 1089, 1085, 1099, 1077, 32, 1092, 1086, 1088, 1084,
     1091, 1083, 1080, 1088, 1086, 1074, 1082, 1080, 58, 10, 10]"

definition ans_no_unclear :: ustr where \<comment> \<open>Vse formulirovki dostatochno ponyatny.\<close>
  "ans_no_unclear =
    [1042, 1089, 1077, 32, 1092, 1086, 1088, 1084, 1091, 1083, 1080, 1088, 1086, 1074,
     1082, 1080, 32, 1076, 1086, 1089, 1090, 1072, 1090, 1086, 1095, 1085, 1086, 32,
     1087, 1086, 1085, 1103, 1090, 1085, 1099, 46]"

definition ans_decision_head :: ustr where \<comment> \<open><LF><U+1F914> Rekomendaciya po dokumentu:<LF><LF>Obshchaya ocenka: \<close>
  "ans_decision_head =
    [10, 129300, 32, 1056, 1077, 1082, 1086, 1084, 1077, 1085, 1076, 1072, 1094, 1080,
     1103, 32, 1087, 1086, 32, 1076, 1086, 1082, 1091, 1084, 1077, 1085, 1090, 1091, 58,
     10, 10, 1054, 1073, 1097, 1072, 1103, 32, 1086, 1094, 1077, 1085, 1082, 1072, 58, 32]"

definition ans_decision_sep :: ustr where \<comment> \<open><LF><LF>\<close>
  "ans_decision_sep =
    [10, 10]"

definition ans_decision_tail :: ustr where \<comment> \<open><LF><LF><U+1F4A1> Sovetuyu:<LF>1. Prokonsul'tirovat'sya s yuristom<LF>2. Obratit' vnimanie na najdennye riski<LF>3. Utochnit' neyasnye formulirovki<LF><LF>Pomnite: eto bazovyj analiz, okonchatel'noe reshenie za vami!<LF>        \<close>
  "ans_decision_tail =
    [10, 10, 128161, 32, 1057, 1086, 1074, 1077, 1090, 1091, 1102, 58, 10, 49, 46, 32,
     1055, 1088, 1086, 1082, 1086, 1085, 1089, 1091, 1083, 1100, 1090, 1080, 1088, 1086,
     1074, 1072, 1090, 1100, 1089, 1103, 32, 1089, 32, 1102, 1088, 1080, 1089, 1090,
     1086, 1084, 10, 50, 46, 32, 1054, 1073, 1088, 1072, 1090, 1080, 1090, 1100, 32,
     1074, 1085, 1080, 1084, 1072, 1085, 1080, 1077, 32, 1085, 1072, 32, 1085, 1072,
     1081, 1076, 1077, 1085, 1085, 1099, 1077, 32, 1088, 1080, 1089, 1082, 1080, 10, 51,
     46, 32, 1059, 1090, 1086, 1095, 1085, 1080, 1090, 1100, 32, 1085, 1077, 1103, 1089,
     1085, 1099, 1077, 32, 1092, 1086, 1088, 1084, 1091, 1083, 1080, 1088, 1086, 1074,
     1082, 1080, 10, 10, 1055, 1086, 1084, 1085, 1080, 1090, 1077, 58, 32, 1101, 1090,
     1086, 32, 1073, 1072, 1079, 1086, 1074, 1099, 1081, 32, 1072, 1085, 1072, 1083,
     1080, 1079, 44, 32, 1086, 1082, 1086, 1085, 1095, 1072, 1090, 1077, 1083, 1100,
     1085, 1086, 1077, 32, 1088, 1077, 1096, 1077, 1085, 1080, 1077, 32, 1079, 1072, 32,
     1074, 1072, 1084, 1080, 33, 10, 32, 32, 32, 32, 32, 32, 32, 32]"

definition ans_decision_warn :: ustr where \<comment> \<open><U+26A0><U+FE0F> Rekomenduyu vnimatel'no izuchit' riski pered podpisaniem.\<close>
  "ans_decision_warn =
    [9888, 65039, 32, 1056, 1077, 1082, 1086, 1084, 1077, 1085, 1076, 1091, 1102, 32,
     1074, 1085, 1080, 1084, 1072, 1090, 1077, 1083, 1100, 1085, 1086, 32, 1080, 1079,
     1091, 1095, 1080, 1090, 1100, 32, 1088, 1080, 1089, 1082, 1080, 32, 1087, 1077,
     1088, 1077, 1076, 32, 1087, 1086, 1076, 1087, 1080, 1089, 1072, 1085, 1080, 1077,
     1084, 46]"

definition ans_decision_safe :: ustr where \<comment> \<open><U+2705> Dokument vyglyadit otnositel'no bezopasnym.\<close>
  "ans_decision_safe =
    [9989, 32, 1044, 1086, 1082, 1091, 1084, 1077, 1085, 1090, 32, 1074, 1099, 1075,
     1083, 1103, 1076, 1080, 1090, 32, 1086, 1090, 1085, 1086, 1089, 1080, 1090, 1077,
     1083, 1100, 1085, 1086, 32, 1073, 1077, 1079, 1086, 1087, 1072, 1089, 1085, 1099,
     1084, 46]"

definition ans_fallback_head :: ustr where \<comment> \<open><LF><U+1F4AC> Spasibo za vopros! <LF><LF>Ya proanaliziroval vash dokument "\<close>
  "ans_fallback_head =
    [10, 128172, 32, 1057, 1087, 1072, 1089, 1080, 1073, 1086, 32, 1079, 1072, 32, 1074,
     1086, 1087, 1088, 1086, 1089, 33, 32, 10, 10, 1071, 32, 1087, 1088, 1086, 1072,
     1085, 1072, 1083, 1080, 1079, 1080, 1088, 1086, 1074, 1072, 1083, 32, 1074, 1072,
     1096, 32, 1076, 1086, 1082, 1091, 1084, 1077, 1085, 1090, 32, 34]"

definition ans_fallback_tail :: ustr where \<comment> \<open>" i mogu otvetit' na voprosy o:<LF><U+2022> Riskah v dogovore<LF><U+2022> Vygodnyh usloviyah  <LF><U+2022> Neyasnyh formulirovkah<LF><U+2022> Rekomendaciyah po podpisaniyu<LF><LF>Poprobujte sprosit': "Kakie est' riski?" ili "Stoit li podpisyvat'?"<LF><LF><U+1F52C> V razrabotke: polnocennyj AI-pomoshchnik s detal'nym analizom kazhdogo punkta.<LF>        \<close>
  "ans_fallback_tail =
    [34, 32, 1080, 32, 1084, 1086, 1075, 1091, 32, 1086, 1090, 1074, 1077, 1090, 1080,
     1090, 1100, 32, 1085, 1072, 32, 1074, 1086, 1087, 1088, 1086, 1089, 1099, 32, 1086,
     58, 10, 8226, 32, 1056, 1080, 1089, 1082, 1072, 1093, 32, 1074, 32, 1076, 1086,
     1075, 1086, 1074, 1086, 1088, 1077, 10, 8226, 32, 1042, 1099, 1075, 1086, 1076,
     1085, 1099, 1093, 32, 1091, 1089, 1083, 1086, 1074, 1080, 1103, 1093, 32, 32, 10,
     8226, 32, 1053, 1077, 1103, 1089, 1085, 1099, 1093, 32, 1092, 1086, 1088, 1084,
     1091, 1083, 1080, 1088, 1086, 1074, 1082, 1072, 1093, 10, 8226, 32, 1056, 1077,
     1082, 1086, 1084, 1077, 1085, 1076, 1072, 1094, 1080, 1103, 1093, 32, 1087, 1086,
     32, 1087, 1086, 1076, 1087, 1080, 1089, 1072, 1085, 1080, 1102, 10, 10, 1055, 1086,
     1087, 1088, 1086, 1073, 1091, 1081, 1090, 1077, 32, 1089, 1087, 1088, 1086, 1089,
     1080, 1090, 1100, 58, 32, 34, 1050, 1072, 1082, 1080, 1077, 32, 1077, 1089, 1090,
     1100, 32, 1088, 1080, 1089, 1082, 1080, 63, 34, 32, 1080, 1083, 1080, 32, 34, 1057,
     1090, 1086, 1080, 1090, 32, 1083, 1080, 32, 1087, 1086, 1076, 1087, 1080, 1089,
     1099, 1074, 1072, 1090, 1100, 63, 34, 10, 10, 128300, 32, 1042, 32, 1088, 1072,
     1079, 1088, 1072, 1073, 1086, 1090, 1082, 1077, 58, 32, 1087, 1086, 1083, 1085,
     1086, 1094, 1077, 1085, 1085, 1099, 1081, 32, 65, 73, 45, 1087, 1086, 1084, 1086,
     1097, 1085, 1080, 1082, 32, 1089, 32, 1076, 1077, 1090, 1072, 1083, 1100, 1085,
     1099, 1084, 32, 1072, 1085, 1072, 1083, 1080, 1079, 1086, 1084, 32, 1082, 1072,
     1078, 1076, 1086, 1075, 1086, 32, 1087, 1091, 1085, 1082, 1090, 1072, 46, 10, 32,
     32, 32, 32, 32, 32, 32, 32]"

definition detail_not_found :: ustr where \<comment> \<open>Dokument ne najden\<close>
  "detail_not_found =
    [1044, 1086, 1082, 1091, 1084, 1077, 1085, 1090, 32, 1085, 1077, 32, 1085, 1072,
     1081, 1076, 1077, 1085]"


definition risk_patterns :: "(ustr \<times> ustr list) list" where
  "risk_patterns =
    [(rt_shtrafnye_sankcii, [kw_shtraf, kw_penya, kw_neustojka, kw_sankcii]),
     (rt_odnostoronnie_usloviya, [kw_odnostoronn, kw_v_lyuboe_vremya, kw_po_svoemu_usmotreniyu, kw_vprave_rastorgnut]),
     (rt_vysokaya_otvetstvennost, [kw_polnaya_otvetstvennost, kw_vozmeshchenie_vseh, kw_solidarnaya_otvetstvennost]),
     (rt_neopredelennye_sroki, [kw_razumnyj_srok, kw_v_kratchajshie_sroki, kw_nezamedlitelno, kw_bez_promedleniya]),
     (rt_finansovye_riski, [kw_za_svoj_schet, kw_bez_vozmeshcheniya, kw_bezvozmezdno, kw_ubytki_pokupatelya])]"

definition benefit_patterns :: "(ustr \<times> ustr list) list" where
  "benefit_patterns =
    [(bt_garantii, [kw_garantiya, kw_garantiruet, kw_obyazuetsya]),
     (bt_zashchita_interesov, [kw_strahovanie, kw_kompensaciya, kw_vozmeshchenie]),
     (bt_gibkie_usloviya, [kw_po_soglasovaniyu, kw_vozmozhnost_izmeneniya, kw_pravo_vybora]),
     (bt_vozvrat_sredstv, [kw_vozvrat, kw_vozmeshchenie_platezha, kw_kompensaciya_rashodov])]"

definition unclear_patterns :: "ustr list" where
  "unclear_patterns =
    [kw_v_ustanovlennom_poryadke,
     kw_sootvetstvuyushchie_mery,
     kw_nadlezhashchim_obrazom,
     kw_razumnyj_srok,
     kw_sushchestvennye_narusheniya,
     kw_fors_mazhornye_obstoyatelstva,
     kw_inye_obstoyatelstva,
     kw_po_oboyudnomu_soglasiyu,
     kw_v_isklyuchitelnyh_sluchayah]"

definition risk_words :: "ustr list" where
  "risk_words = [kw_risk, kw_opasn, kw_shtraf]"

definition benefit_words :: "ustr list" where
  "benefit_words = [kw_vygod, kw_plyus, kw_horosh]"

definition unclear_words :: "ustr list" where
  "unclear_words = [kw_neponyatn, kw_neyasn, kw_chto_oznachaet]"

definition decision_words :: "ustr list" where
  "decision_words = [kw_podpisyvat, kw_soglasitsya, kw_stoit_li]"

section \<open>Data model\<close>

record DocumentAnalysis =
  document_id :: ustr
  filename :: ustr
  text_content :: ustr
  risks :: "pydict list"
  benefits :: "pydict list"
  unclear_terms :: "pydict list"
  overall_rating :: ustr
  summary :: ustr
  processed_at :: ustr

record ChatMessage =
  msg_document_id :: ustr
  question :: ustr

record ChatResponse =
  answer :: ustr
  resp_document_id :: ustr

text \<open>The two module-level dicts \<open>documents_storage\<close> and \<open>chat_history\<close>.\<close>

record store =
  documents_storage :: "ustr \<rightharpoonup> DocumentAnalysis"
  chat_history :: "ustr \<rightharpoonup> pydict list"

section \<open>AIAnalyzer.analyze_document\<close>

text \<open>
  Lines 147-150, 173-176 and 196-199: the context of a keyword known to occur in
  \<open>text_lower\<close>. The position is found in the lower-cased copy, the window is cut from
  the original text.
\<close>

definition find_context :: "ustr \<Rightarrow> ustr \<Rightarrow> ustr \<Rightarrow> ustr" where
  "find_context text text_lower keyword =
     (let start_pos = py_find text_lower keyword;
          context_start = max 0 (start_pos - 100);
          context_end = min (int (length text)) (start_pos + 200)
      in py_strip (py_slice text context_start context_end))"

text \<open>Lines 152-158: the dict appended for a risk.\<close>

definition risk_severity :: "ustr \<Rightarrow> ustr" where
  "risk_severity keyword =
     (if list_ex (\<lambda>x. py_in x keyword) [kw_shtraf, kw_polnaya_otvetstvennost]
      then s_vysokij else s_srednij)"

definition risk_dict :: "ustr \<Rightarrow> ustr \<Rightarrow> ustr \<Rightarrow> pydict" where
  "risk_dict risk_type keyword context =
     [(k_type, risk_type),
      (k_keyword, keyword),
      (k_context, context),
      (k_severity, risk_severity keyword),
      (k_recommendation, s_rec_prefix @ keyword @ s_quote)]"

text \<open>
  Lines 143-159. The inner loop over the keywords of one risk type appends at most one
  dict and leaves at the first keyword found (\<open>break\<close>); the outer loop runs over the
  items of \<open>risk_patterns\<close> in insertion order. The list \<open>risks\<close> (here \<open>rs\<close>) is threaded through.
\<close>

fun risk_keywords_loop :: "ustr \<Rightarrow> ustr \<Rightarrow> ustr \<Rightarrow> ustr list \<Rightarrow> pydict list \<Rightarrow> pydict list" where
  "risk_keywords_loop text text_lower risk_type [] rs = rs"
| "risk_keywords_loop text text_lower risk_type (keyword # keywords) rs =
     (if py_in keyword text_lower
      then rs @ [risk_dict risk_type keyword (find_context text text_lower keyword)]
      else risk_keywords_loop text text_lower risk_type keywords rs)"

fun risk_loop :: "ustr \<Rightarrow> ustr \<Rightarrow> (ustr \<times> ustr list) list \<Rightarrow> pydict list \<Rightarrow> pydict list" where
  "risk_loop text text_lower [] rs = rs"
| "risk_loop text text_lower ((risk_type, keywords) # items) rs =
     risk_loop text text_lower items
       (risk_keywords_loop text text_lower risk_type keywords rs)"

text \<open>Lines 170-184: the same two loops for the benefits.\<close>

definition benefit_value :: "ustr \<Rightarrow> ustr" where
  "benefit_value keyword = (if py_in kw_garantiya keyword then s_vysokaya else s_srednyaya)"

definition benefit_dict :: "ustr \<Rightarrow> ustr \<Rightarrow> ustr \<Rightarrow> pydict" where
  "benefit_dict benefit_type keyword context =
     [(k_type, benefit_type),
      (k_keyword, keyword),
      (k_context, context),
      (k_value, benefit_value keyword)]"

fun benefit_keywords_loop :: "ustr \<Rightarrow> ustr \<Rightarrow> ustr \<Rightarrow> ustr list \<Rightarrow> pydict list \<Rightarrow> pydict list" where
  "benefit_keywords_loop text text_lower benefit_type [] bs = bs"
| "benefit_keywords_loop text text_lower benefit_type (keyword # keywords) bs =
     (if py_in keyword text_lower
      then bs @ [benefit_dict benefit_type keyword (find_context text text_lower keyword)]
      else benefit_keywords_loop text text_lower benefit_type keywords bs)"

fun benefit_loop :: "ustr \<Rightarrow> ustr \<Rightarrow> (ustr \<times> ustr list) list \<Rightarrow> pydict list \<Rightarrow> pydict list" where
  "benefit_loop text text_lower [] bs = bs"
| "benefit_loop text text_lower ((benefit_type, keywords) # items) bs =
     benefit_loop text text_lower items
       (benefit_keywords_loop text text_lower benefit_type keywords bs)"

text \<open>Lines 194-206: one loop over the unclear phrases, with no \<open>break\<close>.\<close>

definition unclear_dict :: "ustr \<Rightarrow> ustr \<Rightarrow> pydict" where
  "unclear_dict pattern context =
     [(k_phrase, pattern),
      (k_context, context),
      (k_explanation, s_expl_prefix @ pattern @ s_expl_suffix),
      (k_suggestion, s_suggestion)]"

fun unclear_loop :: "ustr \<Rightarrow> ustr \<Rightarrow> ustr list \<Rightarrow> pydict list \<Rightarrow> pydict list" where
  "unclear_loop text text_lower [] us = us"
| "unclear_loop text text_lower (pattern # patterns) us =
     unclear_loop text text_lower patterns
       (if py_in pattern text_lower
        then us @ [unclear_dict pattern (find_context text text_lower pattern)]
        else us)"

text \<open>Lines 209-219: the overall rating, with the three branches of the source.\<close>

definition rate :: "pydict list \<Rightarrow> ustr" where
  "rate rs =
     (let risk_count = length rs;
          severe_risks = length (filter (\<lambda>r. dict_get r k_severity = Some s_vysokij) rs)
      in if severe_risks > 0 then s_riskovan
         else if risk_count > 3 then s_trebuet_vnimaniya
         else if risk_count > 0 then s_trebuet_vnimaniya
         else s_bezopasen)"

text \<open>
  Lines 222-238: the summary. \<open>any("shtraf" in r["keyword"] for r in risks)\<close> reads a
  key of every risk up to the first hit, so it can raise \<open>KeyError\<close>.
\<close>

fun any_shtraf :: "pydict list \<Rightarrow> error + bool" where
  "any_shtraf [] = Inr False"
| "any_shtraf (r # rs) =
     (case getitem r k_keyword of
        Inl e \<Rightarrow> Inl e
      | Inr kw \<Rightarrow> if py_in kw_shtraf kw then Inr True else any_shtraf rs)"

definition render_summary ::
    "ustr \<Rightarrow> pydict list \<Rightarrow> pydict list \<Rightarrow> pydict list \<Rightarrow> ustr \<Rightarrow> error + ustr" where
  "render_summary fname rs bs us rating =
     (case any_shtraf rs of
        Inl e \<Rightarrow> Inl e
      | Inr shtraf \<Rightarrow>
          Inr (py_strip
            (sum_head @ fname @
             sum_risks @ str_of_nat (length rs) @
             sum_benefits @ str_of_nat (length bs) @
             sum_unclear @ str_of_nat (length us) @
             sum_rating @ py_upper rating @
             sum_recs @
             (if shtraf then sum_rec_shtraf else s_empty) @ s_newline @
             (if us \<noteq> [] then sum_rec_unclear else s_empty) @ s_newline @
             (if bs \<noteq> [] then sum_rec_benefits else s_empty) @
             sum_tail)))"

text \<open>Line 243: the stored excerpt.\<close>

definition excerpt :: "ustr \<Rightarrow> ustr" where
  "excerpt text = (if length text > 2000 then py_slice text 0 2000 @ s_marker else text)"

text \<open>
  Lines 128-250. \<open>uuid4\<close> and \<open>now\<close> stand for the values of \<open>str(uuid.uuid4())\<close> and
  \<open>datetime.now().isoformat()\<close> at the call.
\<close>

definition analyze_document :: "ustr \<Rightarrow> ustr \<Rightarrow> ustr \<Rightarrow> ustr \<Rightarrow> error + DocumentAnalysis" where
  "analyze_document text fname uuid4 now =
     (let text_lower = py_lower text;
          rs = risk_loop text text_lower risk_patterns [];
          bs = benefit_loop text text_lower benefit_patterns [];
          us = unclear_loop text text_lower unclear_patterns [];
          rating = rate rs
      in case render_summary fname rs bs us rating of
           Inl e \<Rightarrow> Inl e
         | Inr sm \<Rightarrow>
             Inr \<lparr>document_id = uuid4,
                  filename = fname,
                  text_content = excerpt text,
                  risks = rs,
                  benefits = bs,
                  unclear_terms = us,
                  overall_rating = rating,
                  summary = sm,
                  processed_at = now\<rparr>)"

section \<open>chat_with_document\<close>

text \<open>
  Lines 340, 344 and 348: the bulleted lines. Each reads two keys of every dict, so each
  can raise \<open>KeyError\<close>.
\<close>

fun bullet_lines :: "ustr \<Rightarrow> ustr \<Rightarrow> pydict list \<Rightarrow> error + ustr list" where
  "bullet_lines k1 k2 [] = Inr []"
| "bullet_lines k1 k2 (d # ds) =
     (case getitem d k1 of
        Inl e \<Rightarrow> Inl e
      | Inr a \<Rightarrow>
          (case getitem d k2 of
             Inl e \<Rightarrow> Inl e
           | Inr b \<Rightarrow>
               (case bullet_lines k1 k2 ds of
                  Inl e \<Rightarrow> Inl e
                | Inr ls \<Rightarrow> Inr ((s_bullet @ a @ s_colon @ b) # ls))))"

definition any_word :: "ustr list \<Rightarrow> ustr \<Rightarrow> bool" where
  "any_word ws question_lower = list_ex (\<lambda>word. py_in word question_lower) ws"

definition risk_answer :: "DocumentAnalysis \<Rightarrow> error + ustr" where
  "risk_answer document =
     (case bullet_lines k_type k_recommendation (risks document) of
        Inl e \<Rightarrow> Inl e
      | Inr ls \<Rightarrow>
          (let risks_text = py_join s_newline ls
           in Inr (if risks_text \<noteq> [] then ans_risks_head @ risks_text else ans_no_risks)))"

definition benefit_answer :: "DocumentAnalysis \<Rightarrow> error + ustr" where
  "benefit_answer document =
     (case bullet_lines k_type k_keyword (benefits document) of
        Inl e \<Rightarrow> Inl e
      | Inr ls \<Rightarrow>
          (let benefits_text = py_join s_newline ls
           in Inr (if benefits_text \<noteq> [] then ans_benefits_head @ benefits_text
                   else ans_no_benefits)))"

definition unclear_answer :: "DocumentAnalysis \<Rightarrow> error + ustr" where
  "unclear_answer document =
     (case bullet_lines k_phrase k_explanation (unclear_terms document) of
        Inl e \<Rightarrow> Inl e
      | Inr ls \<Rightarrow>
          (let unclear_text = py_join s_newline ls
           in Inr (if unclear_text \<noteq> [] then ans_unclear_head @ unclear_text
                   else ans_no_unclear)))"

definition decision_answer :: "DocumentAnalysis \<Rightarrow> ustr" where
  "decision_answer document =
     ans_decision_head @ overall_rating document @ ans_decision_sep @
     (if overall_rating document \<noteq> s_bezopasen then ans_decision_warn else ans_decision_safe) @
     ans_decision_tail"

definition fallback_answer :: "DocumentAnalysis \<Rightarrow> ustr" where
  "fallback_answer document = ans_fallback_head @ filename document @ ans_fallback_tail"

text \<open>Lines 336-380: the \<open>if\<close>/\<open>elif\<close> chain choosing the answer.\<close>

definition choose_answer :: "DocumentAnalysis \<Rightarrow> ustr \<Rightarrow> error + ustr" where
  "choose_answer document q =
     (let question_lower = py_lower q
      in if any_word risk_words question_lower then risk_answer document
         else if any_word benefit_words question_lower then benefit_answer document
         else if any_word unclear_words question_lower then unclear_answer document
         else if any_word decision_words question_lower then Inr (decision_answer document)
         else Inr (fallback_answer document))"

text \<open>
  Lines 327-392. The result pairs what the handler returns or raises with the store as
  the handler leaves it. \<open>now\<close> stands for \<open>datetime.now().isoformat()\<close>.
\<close>

definition chat_with_document ::
    "store \<Rightarrow> ChatMessage \<Rightarrow> ustr \<Rightarrow> (error + ChatResponse) \<times> store" where
  "chat_with_document s message now =
     (case documents_storage s (msg_document_id message) of
        None \<Rightarrow> (Inl (HTTPException 404 detail_not_found), s)
      | Some document \<Rightarrow>
          (case choose_answer document (question message) of
             Inl e \<Rightarrow> (Inl e, s)
           | Inr a \<Rightarrow>
               (let history =
                      (case chat_history s (msg_document_id message) of
                         None \<Rightarrow> []
                       | Some h \<Rightarrow> h);
                    entry = [(k_question, question message), (k_answer, a), (k_timestamp, now)]
                in (Inr \<lparr>answer = a, resp_document_id = msg_document_id message\<rparr>,
                    s\<lparr>chat_history :=
                        (chat_history s)(msg_document_id message \<mapsto> history @ [entry])\<rparr>))))"

section \<open>Notions used to state the properties\<close>

text \<open>\<open>n\<close> is the index of the first occurrence of \<open>sub\<close> in \<open>s\<close>.\<close>

definition first_occurrence :: "ustr \<Rightarrow> ustr \<Rightarrow> nat \<Rightarrow> bool" where
  "first_occurrence sub s n \<longleftrightarrow>
     n + length sub \<le> length s \<and> take (length sub) (drop n s) = sub \<and>
     (\<forall>m<n. take (length sub) (drop m s) \<noteq> sub)"

text \<open>
  What one item of a pattern table contributes: the dict for the first keyword of the
  item, in list order, that occurs in the lower-cased text, or nothing.
\<close>

definition risk_hit :: "ustr \<Rightarrow> ustr \<Rightarrow> ustr \<Rightarrow> ustr list \<Rightarrow> pydict list" where
  "risk_hit text lw ty kws =
     (case List.find (\<lambda>k. py_in k lw) kws of
        None \<Rightarrow> []
      | Some k \<Rightarrow> [risk_dict ty k (find_context text lw k)])"

definition benefit_hit :: "ustr \<Rightarrow> ustr \<Rightarrow> ustr \<Rightarrow> ustr list \<Rightarrow> pydict list" where
  "benefit_hit text lw ty kws =
     (case List.find (\<lambda>k. py_in k lw) kws of
        None \<Rightarrow> []
      | Some k \<Rightarrow> [benefit_dict ty k (find_context text lw k)])"

text \<open>
  The two-tier rating rule in the words of the specification: any high-severity risk
  gives "riskovan", else any risk gives "trebuet vnimaniya", else "bezopasen".
\<close>

definition rate_simplified :: "pydict list \<Rightarrow> ustr" where
  "rate_simplified rs =
     (if list_ex (\<lambda>r. dict_get r k_severity = Some s_vysokij) rs then s_riskovan
      else if rs \<noteq> [] then s_trebuet_vnimaniya
      else s_bezopasen)"

text \<open>
  A high-severity risk keyword: a keyword of \<open>risk_patterns\<close> for which line 156 gives
  the severity "vysokij".
\<close>

definition high_severity_keyword :: "ustr \<Rightarrow> bool" where
  "high_severity_keyword kw \<longleftrightarrow>
     kw \<in> set (concat (map snd risk_patterns)) \<and> risk_severity kw = s_vysokij"

text \<open>Every keyword and phrase of the three tables.\<close>

definition configured_keywords :: "ustr list" where
  "configured_keywords =
     concat (map snd risk_patterns) @ concat (map snd benefit_patterns) @ unclear_patterns"

text \<open>
  The dicts of an analysis hold the keys that the chat handler reads with \<open>d[k]\<close>.
\<close>

definition has_keys :: "ustr \<Rightarrow> ustr \<Rightarrow> pydict \<Rightarrow> bool" where
  "has_keys k1 k2 d \<longleftrightarrow> dict_get d k1 \<noteq> None \<and> dict_get d k2 \<noteq> None"

definition well_formed :: "DocumentAnalysis \<Rightarrow> bool" where
  "well_formed d \<longleftrightarrow>
     list_all (has_keys k_type k_recommendation) (risks d) \<and>
     list_all (has_keys k_type k_keyword) (benefits d) \<and>
     list_all (has_keys k_phrase k_explanation) (unclear_terms d)"

text \<open>
  The stores the two handlers can produce. Line 317 of the upload handler stores an
  analysis under its own id; the handler reaches that line only with an analysis returned
  by \<open>analyze_document\<close>. The chat handler leaves the store as \<open>chat_with_document\<close>
  says.
\<close>

inductive reachable :: "store \<Rightarrow> bool" where
  empty_store: "reachable \<lparr>documents_storage = Map.empty, chat_history = Map.empty\<rparr>"
| analyzed:
    "reachable s \<Longrightarrow> analyze_document text fname u n = Inr d \<Longrightarrow>
     reachable (s\<lparr>documents_storage := (documents_storage s)(document_id d \<mapsto> d)\<rparr>)"
| chatted: "reachable s \<Longrightarrow> reachable (snd (chat_with_document s message n))"

text \<open>
  The chat intent in the words of the specification: five families, tested in a fixed
  priority order on the lower-cased question; the first family with a matching word
  wins, and the fallback family takes what is left.
\<close>

datatype family = RiskFamily | BenefitFamily | AmbiguityFamily | DecisionFamily | FallbackFamily

definition family_priority :: "(family \<times> ustr list) list" where
  "family_priority =
     [(RiskFamily, risk_words),
      (BenefitFamily, benefit_words),
      (AmbiguityFamily, unclear_words),
      (DecisionFamily, decision_words)]"

definition classify :: "ustr \<Rightarrow> family" where
  "classify question_lower =
     (case List.find (\<lambda>fw. any_word (snd fw) question_lower) family_priority of
        None \<Rightarrow> FallbackFamily
      | Some fw \<Rightarrow> fst fw)"

fun render :: "family \<Rightarrow> DocumentAnalysis \<Rightarrow> error + ustr" where
  "render RiskFamily document = risk_answer document"
| "render BenefitFamily document = benefit_answer document"
| "render AmbiguityFamily document = unclear_answer document"
| "render DecisionFamily document = Inr (decision_answer document)"
| "render FallbackFamily document = Inr (fallback_answer document)"

text \<open>
  The lower-case form of a code point other than U+0130, as one code point.
\<close>

definition lower_char :: "nat \<Rightarrow> nat" where
  "lower_char c = hd (lower_cp c)"

section \<open>Example inputs\<close>

definition ex_shtraf_text :: ustr where \<comment> \<open>Shtraf za prosrochku sostavlyaet 10% ezhednevno.\<close>
  "ex_shtraf_text =
    [1064, 1090, 1088, 1072, 1092, 32, 1079, 1072, 32, 1087, 1088, 1086, 1089, 1088,
     1086, 1095, 1082, 1091, 32, 1089, 1086, 1089, 1090, 1072, 1074, 1083, 1103, 1077,
     1090, 32, 49, 48, 37, 32, 1077, 1078, 1077, 1076, 1085, 1077, 1074, 1085, 1086, 46]"

definition ex_neutral_text :: ustr where \<comment> \<open>Storony zaklyuchili nastoyashchij dogovor v gorode Almaty.\<close>
  "ex_neutral_text =
    [1057, 1090, 1086, 1088, 1086, 1085, 1099, 32, 1079, 1072, 1082, 1083, 1102, 1095,
     1080, 1083, 1080, 32, 1085, 1072, 1089, 1090, 1086, 1103, 1097, 1080, 1081, 32,
     1076, 1086, 1075, 1086, 1074, 1086, 1088, 32, 1074, 32, 1075, 1086, 1088, 1086,
     1076, 1077, 32, 1040, 1083, 1084, 1072, 1090, 1099, 46]"

definition ex_ellipsis_text :: ustr where \<comment> \<open>Oplata proizvoditsya v techenie desyati dnej posle postavki tovara...\<close>
  "ex_ellipsis_text =
    [1054, 1087, 1083, 1072, 1090, 1072, 32, 1087, 1088, 1086, 1080, 1079, 1074, 1086,
     1076, 1080, 1090, 1089, 1103, 32, 1074, 32, 1090, 1077, 1095, 1077, 1085, 1080,
     1077, 32, 1076, 1077, 1089, 1103, 1090, 1080, 32, 1076, 1085, 1077, 1081, 32, 1087,
     1086, 1089, 1083, 1077, 32, 1087, 1086, 1089, 1090, 1072, 1074, 1082, 1080, 32,
     1090, 1086, 1074, 1072, 1088, 1072, 46, 46, 46]"

definition ex_two_keywords_text :: ustr where \<comment> \<open>Pokupatel' bez promedleniya i nezamedlitel'no oplachivaet tovar; vozmeshchenie i kompensaciya ne proizvodyatsya.\<close>
  "ex_two_keywords_text =
    [1055, 1086, 1082, 1091, 1087, 1072, 1090, 1077, 1083, 1100, 32, 1073, 1077, 1079,
     32, 1087, 1088, 1086, 1084, 1077, 1076, 1083, 1077, 1085, 1080, 1103, 32, 1080, 32,
     1085, 1077, 1079, 1072, 1084, 1077, 1076, 1083, 1080, 1090, 1077, 1083, 1100, 1085,
     1086, 32, 1086, 1087, 1083, 1072, 1095, 1080, 1074, 1072, 1077, 1090, 32, 1090,
     1086, 1074, 1072, 1088, 59, 32, 1074, 1086, 1079, 1084, 1077, 1097, 1077, 1085,
     1080, 1077, 32, 1080, 32, 1082, 1086, 1084, 1087, 1077, 1085, 1089, 1072, 1094,
     1080, 1103, 32, 1085, 1077, 32, 1087, 1088, 1086, 1080, 1079, 1074, 1086, 1076,
     1103, 1090, 1089, 1103, 46]"

definition ex_rich_text :: ustr where \<comment> \<open>Shtraf uplachivaetsya v razumnyj srok; prodavec garantiruet vozvrat v ustanovlennom poryadke.\<close>
  "ex_rich_text =
    [1064, 1090, 1088, 1072, 1092, 32, 1091, 1087, 1083, 1072, 1095, 1080, 1074, 1072,
     1077, 1090, 1089, 1103, 32, 1074, 32, 1088, 1072, 1079, 1091, 1084, 1085, 1099,
     1081, 32, 1089, 1088, 1086, 1082, 59, 32, 1087, 1088, 1086, 1076, 1072, 1074, 1077,
     1094, 32, 1075, 1072, 1088, 1072, 1085, 1090, 1080, 1088, 1091, 1077, 1090, 32,
     1074, 1086, 1079, 1074, 1088, 1072, 1090, 32, 1074, 32, 1091, 1089, 1090, 1072,
     1085, 1086, 1074, 1083, 1077, 1085, 1085, 1086, 1084, 32, 1087, 1086, 1088, 1103,
     1076, 1082, 1077, 46]"

definition ex_q_risks_and_benefits :: ustr where \<comment> \<open>Kakie riski i vygody?\<close>
  "ex_q_risks_and_benefits =
    [1050, 1072, 1082, 1080, 1077, 32, 1088, 1080, 1089, 1082, 1080, 32, 1080, 32, 1074,
     1099, 1075, 1086, 1076, 1099, 63]"

definition ex_q_sign :: ustr where \<comment> \<open>Stoit li podpisyvat'?\<close>
  "ex_q_sign =
    [1057, 1090, 1086, 1080, 1090, 32, 1083, 1080, 32, 1087, 1086, 1076, 1087, 1080,
     1089, 1099, 1074, 1072, 1090, 1100, 63]"

definition ex_filename :: ustr where \<comment> \<open>contract.txt\<close>
  "ex_filename =
    [99, 111, 110, 116, 114, 97, 99, 116, 46, 116, 120, 116]"

definition ex_id :: ustr where \<comment> \<open>doc-1\<close>
  "ex_id =
    [100, 111, 99, 45, 49]"

definition ex_other_id :: ustr where \<comment> \<open>doc-2\<close>
  "ex_other_id =
    [100, 111, 99, 45, 50]"

definition ex_now :: ustr where \<comment> \<open>2024-01-01T00:00:00\<close>
  "ex_now =
    [50, 48, 50, 52, 45, 48, 49, 45, 48, 49, 84, 48, 48, 58, 48, 48, 58, 48, 48]"

text \<open>2001 times the letter a.\<close>

definition ex_long_text :: ustr where
  "ex_long_text = replicate 2001 97"

definition ex_dotted_text :: ustr where \<comment> \<open>101 times U+0130 (capital I with dot above), then shtraf\<close>
  "ex_dotted_text =
    [304, 304, 304, 304, 304, 304, 304, 304, 304, 304, 304, 304, 304, 304, 304, 304,
     304, 304, 304, 304, 304, 304, 304, 304, 304, 304, 304, 304, 304, 304, 304, 304,
     304, 304, 304, 304, 304, 304, 304, 304, 304, 304, 304, 304, 304, 304, 304, 304,
     304, 304, 304, 304, 304, 304, 304, 304, 304, 304, 304, 304, 304, 304, 304, 304,
     304, 304, 304, 304, 304, 304, 304, 304, 304, 304, 304, 304, 304, 304, 304, 304,
     304, 304, 304, 304, 304, 304, 304, 304, 304, 304, 304, 304, 304, 304, 304, 304,
     304, 304, 304, 304, 304, 1096, 1090, 1088, 1072, 1092]"

text \<open>The store after the upload of the first example text under \<open>ex_id\<close>.\<close>

definition ex_store :: store where
  "ex_store =
     (case analyze_document ex_shtraf_text ex_filename ex_id ex_now of
        Inl e \<Rightarrow> \<lparr>documents_storage = Map.empty, chat_history = Map.empty\<rparr>
      | Inr d \<Rightarrow>
          \<lparr>documents_storage = Map.empty(document_id d \<mapsto> d), chat_history = Map.empty\<rparr>)"

section \<open>Unfolding the literals\<close>

lemmas literal_defs =
  rt_shtrafnye_sankcii_def kw_shtraf_def kw_penya_def kw_neustojka_def
  kw_sankcii_def rt_odnostoronnie_usloviya_def kw_odnostoronn_def kw_v_lyuboe_vremya_def
  kw_po_svoemu_usmotreniyu_def kw_vprave_rastorgnut_def rt_vysokaya_otvetstvennost_def kw_polnaya_otvetstvennost_def
  kw_vozmeshchenie_vseh_def kw_solidarnaya_otvetstvennost_def rt_neopredelennye_sroki_def kw_razumnyj_srok_def
  kw_v_kratchajshie_sroki_def kw_nezamedlitelno_def kw_bez_promedleniya_def rt_finansovye_riski_def
  kw_za_svoj_schet_def kw_bez_vozmeshcheniya_def kw_bezvozmezdno_def kw_ubytki_pokupatelya_def
  bt_garantii_def kw_garantiya_def kw_garantiruet_def kw_obyazuetsya_def
  bt_zashchita_interesov_def kw_strahovanie_def kw_kompensaciya_def kw_vozmeshchenie_def
  bt_gibkie_usloviya_def kw_po_soglasovaniyu_def kw_vozmozhnost_izmeneniya_def kw_pravo_vybora_def
  bt_vozvrat_sredstv_def kw_vozvrat_def kw_vozmeshchenie_platezha_def kw_kompensaciya_rashodov_def
  kw_v_ustanovlennom_poryadke_def kw_sootvetstvuyushchie_mery_def kw_nadlezhashchim_obrazom_def kw_sushchestvennye_narusheniya_def
  kw_fors_mazhornye_obstoyatelstva_def kw_inye_obstoyatelstva_def kw_po_oboyudnomu_soglasiyu_def kw_v_isklyuchitelnyh_sluchayah_def
  k_type_def k_keyword_def k_context_def k_severity_def
  k_recommendation_def k_value_def k_phrase_def k_explanation_def
  k_suggestion_def k_question_def k_answer_def k_timestamp_def
  s_vysokij_def s_srednij_def s_vysokaya_def s_srednyaya_def
  s_riskovan_def s_trebuet_vnimaniya_def s_bezopasen_def s_rec_prefix_def
  s_quote_def s_expl_prefix_def s_expl_suffix_def s_suggestion_def
  s_marker_def s_newline_def s_empty_def sum_head_def
  sum_risks_def sum_benefits_def sum_unclear_def sum_rating_def
  sum_recs_def sum_tail_def sum_rec_shtraf_def sum_rec_unclear_def
  sum_rec_benefits_def kw_risk_def kw_opasn_def kw_vygod_def
  kw_plyus_def kw_horosh_def kw_neponyatn_def kw_neyasn_def
  kw_chto_oznachaet_def kw_podpisyvat_def kw_soglasitsya_def kw_stoit_li_def
  s_bullet_def s_colon_def ans_risks_head_def ans_no_risks_def
  ans_benefits_head_def ans_no_benefits_def ans_unclear_head_def ans_no_unclear_def
  ans_decision_head_def ans_decision_sep_def ans_decision_tail_def ans_decision_warn_def
  ans_decision_safe_def ans_fallback_head_def ans_fallback_tail_def detail_not_found_def

lemmas example_defs =
  ex_shtraf_text_def ex_neutral_text_def ex_ellipsis_text_def ex_two_keywords_text_def
  ex_rich_text_def ex_q_risks_and_benefits_def ex_q_sign_def ex_filename_def
  ex_id_def ex_other_id_def ex_now_def
  ex_dotted_text_def ex_long_text_def

section \<open>Properties of the string primitives\<close>

lemma py_in_sublist: "py_in sub s \<longleftrightarrow> sublist sub s"
  by (induction s) (auto simp: sublist_Cons_right)

lemma prefix_take_eq: "prefix sub xs \<longleftrightarrow> take (length sub) xs = sub"
  by (metis append_eq_conv_conj prefix_def take_is_prefix)

lemma find_from_first:
  "py_in sub s \<Longrightarrow>
     \<exists>n. find_from sub s i = i + int n \<and> n + length sub \<le> length s \<and>
         prefix sub (drop n s) \<and> (\<forall>m<n. \<not> prefix sub (drop m s))"
proof (induction s arbitrary: i)
  case Nil
  then show ?case by simp
next
  case (Cons c cs)
  show ?case
  proof (cases "prefix sub (c # cs)")
    case True
    then have "find_from sub (c # cs) i = i + int 0" by simp
    moreover have "0 + length sub \<le> length (c # cs)"
      using prefix_length_le[OF True] by simp
    ultimately show ?thesis using True by (intro exI[of _ 0]) simp
  next
    case False
    with Cons.prems have "py_in sub cs" by simp
    from Cons.IH[OF this, of "i + 1"] obtain n where
      n: "find_from sub cs (i + 1) = i + 1 + int n" "n + length sub \<le> length cs"
         "prefix sub (drop n cs)" "\<forall>m<n. \<not> prefix sub (drop m cs)"
      by blast
    have "\<forall>m<Suc n. \<not> prefix sub (drop m (c # cs))"
    proof (intro allI impI)
      fix m assume "m < Suc n"
      then show "\<not> prefix sub (drop m (c # cs))"
        using False n(4) by (cases m) auto
    qed
    then show ?thesis using False n by (intro exI[of _ "Suc n"]) simp
  qed
qed

lemma py_find_first:
  assumes "py_in sub s"
  shows "\<exists>n. py_find s sub = int n \<and> first_occurrence sub s n"
  using find_from_first[OF assms, of 0]
  by (auto simp: py_find_def first_occurrence_def prefix_take_eq)

lemma first_occurrence_unique:
  "first_occurrence sub s n \<Longrightarrow> first_occurrence sub s m \<Longrightarrow> n = m"
  unfolding first_occurrence_def by (meson linorder_neqE_nat)

lemma py_slice_nonneg:
  "0 \<le> i \<Longrightarrow> 0 \<le> j \<Longrightarrow> py_slice s i j = take (nat j - nat i) (drop (nat i) s)"
  unfolding py_slice_def Let_def
  by (cases "i \<le> int (length s)"; cases "j \<le> int (length s)") (auto simp: min_def nat_diff_distrib')

lemma length_py_strip: "length (py_strip s) \<le> length s"
proof -
  have "length (dropWhile isspace (rev (dropWhile isspace s))) \<le> length (rev (dropWhile isspace s))"
    by (rule length_dropWhile_le)
  also have "\<dots> \<le> length s" by (simp add: length_dropWhile_le)
  finally show ?thesis by (simp add: py_strip_def)
qed

lemma find_from_ge: "- 1 \<le> i \<Longrightarrow> - 1 \<le> find_from sub s i"
  by (induction s arbitrary: i) auto

lemma py_find_ge: "- 1 \<le> py_find s sub"
  by (simp add: py_find_def find_from_ge)

lemma length_find_context: "length (find_context text lw kw) \<le> 300"
proof -
  define sp where "sp = py_find lw kw"
  define lo where "lo = max 0 (sp - 100)"
  define hi where "hi = min (int (length text)) (sp + 200)"
  have "- 1 \<le> sp" by (simp add: sp_def py_find_ge)
  then have "length (py_slice text lo hi) \<le> 300"
    unfolding py_slice_def Let_def lo_def hi_def by (auto simp: min_def max_def)
  with length_py_strip[of "py_slice text lo hi"] show ?thesis
    unfolding find_context_def Let_def sp_def lo_def hi_def by simp
qed

section \<open>Properties of the loops\<close>

lemma risk_keywords_loop_find:
  "risk_keywords_loop text lw rt kws rs = rs @ risk_hit text lw rt kws"
  by (induction kws) (simp_all add: risk_hit_def)

lemma risk_loop_concat:
  "risk_loop text lw items rs = rs @ concat (map (\<lambda>(rt, kws). risk_hit text lw rt kws) items)"
  by (induction items arbitrary: rs) (auto simp: risk_keywords_loop_find)

lemma benefit_keywords_loop_find:
  "benefit_keywords_loop text lw bt kws bs = bs @ benefit_hit text lw bt kws"
  by (induction kws) (simp_all add: benefit_hit_def)

lemma benefit_loop_concat:
  "benefit_loop text lw items bs = bs @ concat (map (\<lambda>(bt, kws). benefit_hit text lw bt kws) items)"
  by (induction items arbitrary: bs) (auto simp: benefit_keywords_loop_find)

lemma unclear_loop_filter:
  "unclear_loop text lw ps us =
     us @ map (\<lambda>p. unclear_dict p (find_context text lw p)) (filter (\<lambda>p. py_in p lw) ps)"
  by (induction ps arbitrary: us) auto

lemma find_first_split:
  "List.find P xs = Some x \<longleftrightarrow> (\<exists>pre post. xs = pre @ x # post \<and> P x \<and> (\<forall>y\<in>set pre. \<not> P y))"
proof (induction xs)
  case Nil
  then show ?case by simp
next
  case (Cons a xs)
  show ?case
  proof (cases "P a")
    case True
    have "(\<exists>pre post. a # xs = pre @ x # post \<and> P x \<and> (\<forall>y\<in>set pre. \<not> P y)) \<longleftrightarrow> a = x"
    proof
      assume "\<exists>pre post. a # xs = pre @ x # post \<and> P x \<and> (\<forall>y\<in>set pre. \<not> P y)"
      then obtain pre post where h: "a # xs = pre @ x # post" "\<forall>y\<in>set pre. \<not> P y" by blast
      show "a = x" using h True by (cases pre) auto
    next
      assume "a = x"
      with True show "\<exists>pre post. a # xs = pre @ x # post \<and> P x \<and> (\<forall>y\<in>set pre. \<not> P y)"
        by (intro exI[of _ "[]"] exI[of _ xs]) simp
    qed
    with True show ?thesis by auto
  next
    case False
    have "(\<exists>pre post. a # xs = pre @ x # post \<and> P x \<and> (\<forall>y\<in>set pre. \<not> P y)) \<longleftrightarrow>
          (\<exists>pre post. xs = pre @ x # post \<and> P x \<and> (\<forall>y\<in>set pre. \<not> P y))"
    proof
      assume "\<exists>pre post. a # xs = pre @ x # post \<and> P x \<and> (\<forall>y\<in>set pre. \<not> P y)"
      then obtain pre post where h: "a # xs = pre @ x # post" "P x" "\<forall>y\<in>set pre. \<not> P y" by blast
      from h False obtain pre' where "pre = a # pre'" by (cases pre) auto
      with h show "\<exists>pre post. xs = pre @ x # post \<and> P x \<and> (\<forall>y\<in>set pre. \<not> P y)" by auto
    next
      assume "\<exists>pre post. xs = pre @ x # post \<and> P x \<and> (\<forall>y\<in>set pre. \<not> P y)"
      then obtain pre post where h: "xs = pre @ x # post" "P x" "\<forall>y\<in>set pre. \<not> P y" by blast
      with False show "\<exists>pre post. a # xs = pre @ x # post \<and> P x \<and> (\<forall>y\<in>set pre. \<not> P y)"
        by (intro exI[of _ "a # pre"] exI[of _ post]) simp
    qed
    with False Cons.IH show ?thesis by simp
  qed
qed

lemma key_distinct:
  "k_type \<noteq> k_keyword" "k_type \<noteq> k_context" "k_type \<noteq> k_severity" "k_type \<noteq> k_recommendation"
  "k_keyword \<noteq> k_context" "k_keyword \<noteq> k_severity" "k_keyword \<noteq> k_recommendation"
  "k_context \<noteq> k_severity" "k_context \<noteq> k_recommendation" "k_severity \<noteq> k_recommendation"
  "k_type \<noteq> k_value" "k_keyword \<noteq> k_value" "k_context \<noteq> k_value"
  "k_phrase \<noteq> k_context" "k_phrase \<noteq> k_explanation" "k_phrase \<noteq> k_suggestion"
  "k_context \<noteq> k_explanation" "k_context \<noteq> k_suggestion" "k_explanation \<noteq> k_suggestion"
  by (simp_all add: k_type_def k_keyword_def k_context_def k_severity_def k_recommendation_def
      k_value_def k_phrase_def k_explanation_def k_suggestion_def)

lemma risk_dict_get:
  "dict_get (risk_dict rt k c) k_type = Some rt"
  "dict_get (risk_dict rt k c) k_keyword = Some k"
  "dict_get (risk_dict rt k c) k_context = Some c"
  "dict_get (risk_dict rt k c) k_severity = Some (risk_severity k)"
  "dict_get (risk_dict rt k c) k_recommendation = Some (s_rec_prefix @ k @ s_quote)"
  using key_distinct by (simp_all add: risk_dict_def dict_get_def)

lemma benefit_dict_get:
  "dict_get (benefit_dict bt k c) k_type = Some bt"
  "dict_get (benefit_dict bt k c) k_keyword = Some k"
  "dict_get (benefit_dict bt k c) k_context = Some c"
  "dict_get (benefit_dict bt k c) k_value = Some (benefit_value k)"
  using key_distinct by (simp_all add: benefit_dict_def dict_get_def)

lemma unclear_dict_get:
  "dict_get (unclear_dict p c) k_phrase = Some p"
  "dict_get (unclear_dict p c) k_context = Some c"
  "dict_get (unclear_dict p c) k_explanation = Some (s_expl_prefix @ p @ s_expl_suffix)"
  "dict_get (unclear_dict p c) k_suggestion = Some s_suggestion"
  using key_distinct by (simp_all add: unclear_dict_def dict_get_def)

lemma risk_hit_elem:
  assumes "r \<in> set (risk_hit text lw ty kws)"
  shows "\<exists>k. k \<in> set kws \<and> py_in k lw \<and> r = risk_dict ty k (find_context text lw k)"
proof (cases "List.find (\<lambda>k. py_in k lw) kws")
  case None
  with assms show ?thesis by (simp add: risk_hit_def)
next
  case (Some k)
  then have "k \<in> set kws" "py_in k lw"
    by (auto simp: find_Some_iff)
  moreover from Some assms have "r = risk_dict ty k (find_context text lw k)"
    by (simp add: risk_hit_def)
  ultimately show ?thesis by blast
qed

lemma benefit_hit_elem:
  assumes "r \<in> set (benefit_hit text lw ty kws)"
  shows "\<exists>k. k \<in> set kws \<and> py_in k lw \<and> r = benefit_dict ty k (find_context text lw k)"
proof (cases "List.find (\<lambda>k. py_in k lw) kws")
  case None
  with assms show ?thesis by (simp add: benefit_hit_def)
next
  case (Some k)
  then have "k \<in> set kws" "py_in k lw"
    by (auto simp: find_Some_iff)
  moreover from Some assms have "r = benefit_dict ty k (find_context text lw k)"
    by (simp add: benefit_hit_def)
  ultimately show ?thesis by blast
qed

lemma risk_loop_elem:
  assumes "r \<in> set (risk_loop text lw items [])"
  shows "\<exists>rt kws k. (rt, kws) \<in> set items \<and> k \<in> set kws \<and> py_in k lw \<and>
           r = risk_dict rt k (find_context text lw k)"
proof -
  from assms obtain rt kws where i: "(rt, kws) \<in> set items" "r \<in> set (risk_hit text lw rt kws)"
    by (auto simp: risk_loop_concat)
  from risk_hit_elem[OF i(2)] i(1) show ?thesis by blast
qed

lemma benefit_loop_elem:
  assumes "r \<in> set (benefit_loop text lw items [])"
  shows "\<exists>bt kws k. (bt, kws) \<in> set items \<and> k \<in> set kws \<and> py_in k lw \<and>
           r = benefit_dict bt k (find_context text lw k)"
proof -
  from assms obtain bt kws where i: "(bt, kws) \<in> set items" "r \<in> set (benefit_hit text lw bt kws)"
    by (auto simp: benefit_loop_concat)
  from benefit_hit_elem[OF i(2)] i(1) show ?thesis by blast
qed

lemma unclear_loop_elem:
  assumes "r \<in> set (unclear_loop text lw ps [])"
  shows "\<exists>p. p \<in> set ps \<and> py_in p lw \<and> r = unclear_dict p (find_context text lw p)"
  using assms by (auto simp: unclear_loop_filter)

lemma any_shtraf_total:
  "\<forall>r\<in>set rs. \<exists>v. dict_get r k_keyword = Some v \<Longrightarrow> \<exists>b. any_shtraf rs = Inr b"
  by (induction rs) (auto simp: getitem_def dict_get_def)

lemma any_shtraf_risk_loop: "\<exists>b. any_shtraf (risk_loop text lw items []) = Inr b"
proof (rule any_shtraf_total, rule ballI)
  fix r assume "r \<in> set (risk_loop text lw items [])"
  from risk_loop_elem[OF this] show "\<exists>v. dict_get r k_keyword = Some v"
    by (auto simp: risk_dict_get)
qed

lemma analyze_document_Inr:
  "\<exists>sm. analyze_document text fname u n =
     Inr \<lparr>document_id = u, filename = fname, text_content = excerpt text,
          risks = risk_loop text (py_lower text) risk_patterns [],
          benefits = benefit_loop text (py_lower text) benefit_patterns [],
          unclear_terms = unclear_loop text (py_lower text) unclear_patterns [],
          overall_rating = rate (risk_loop text (py_lower text) risk_patterns []),
          summary = sm, processed_at = n\<rparr>"
proof -
  obtain b where "any_shtraf (risk_loop text (py_lower text) risk_patterns []) = Inr b"
    using any_shtraf_risk_loop by blast
  then show ?thesis
    by (simp add: analyze_document_def render_summary_def Let_def)
qed

lemma analyze_document_fields:
  assumes "analyze_document text fname u n = Inr d"
  shows "document_id d = u" "filename d = fname" "text_content d = excerpt text"
    "risks d = risk_loop text (py_lower text) risk_patterns []"
    "benefits d = benefit_loop text (py_lower text) benefit_patterns []"
    "unclear_terms d = unclear_loop text (py_lower text) unclear_patterns []"
    "overall_rating d = rate (risks d)" "processed_at d = n"
  using assms analyze_document_Inr[of "text" fname u n] by auto

lemma severe_count_pos:
  "filter P rs = [] \<longleftrightarrow> \<not> list_ex P rs"
  by (simp add: list_ex_iff filter_empty_conv)

section \<open>The first example text\<close>

lemma ex_shtraf_lower: "py_lower ex_shtraf_text = 1096 # tl ex_shtraf_text"
  by (simp add: py_lower_def lower_cp_def ex_shtraf_text_def)

lemma ex_shtraf_context:
  "find_context ex_shtraf_text (py_lower ex_shtraf_text) kw_shtraf = ex_shtraf_text"
  unfolding ex_shtraf_lower
  by (simp add: find_context_def py_find_def py_slice_def py_strip_def isspace_def
      ex_shtraf_text_def kw_shtraf_def)

lemma ex_shtraf_risks:
  "risk_loop ex_shtraf_text (py_lower ex_shtraf_text) risk_patterns [] =
     [risk_dict rt_shtrafnye_sankcii kw_shtraf ex_shtraf_text]"
proof -
  have "map (\<lambda>(rt, kws). risk_hit ex_shtraf_text (1096 # tl ex_shtraf_text) rt kws) risk_patterns =
     [[risk_dict rt_shtrafnye_sankcii kw_shtraf
         (find_context ex_shtraf_text (1096 # tl ex_shtraf_text) kw_shtraf)], [], [], [], []]"
    by (simp add: risk_patterns_def risk_hit_def ex_shtraf_text_def literal_defs)
  then show ?thesis
    using ex_shtraf_context by (simp add: risk_loop_concat ex_shtraf_lower)
qed

lemma ex_shtraf_risk_answer:
  assumes "risks d = [risk_dict rt_shtrafnye_sankcii kw_shtraf ex_shtraf_text]"
  shows "risk_answer d =
     Inr (ans_risks_head @ s_bullet @ rt_shtrafnye_sankcii @ s_colon @
          s_rec_prefix @ kw_shtraf @ s_quote)"
proof -
  have "bullet_lines k_type k_recommendation (risks d) =
     Inr [s_bullet @ rt_shtrafnye_sankcii @ s_colon @ s_rec_prefix @ kw_shtraf @ s_quote]"
    using risk_dict_get[of rt_shtrafnye_sankcii kw_shtraf ex_shtraf_text]
    by (simp add: assms getitem_def dict_get_def)
  then show ?thesis by (simp add: risk_answer_def Let_def s_bullet_def)
qed

section \<open>The context window\<close>

lemma length_lower_cp: "length (lower_cp c) = (if c = 304 then 2 else 1)"
  by (simp add: lower_cp_def)

lemma length_py_lower_ge: "length s \<le> length (py_lower s)"
  by (induction s) (auto simp: py_lower_def length_lower_cp)

lemma py_lower_length_preserved:
  "length (py_lower s) = length s \<Longrightarrow> 304 \<notin> set s"
proof (induction s)
  case Nil
  then show ?case by simp
next
  case (Cons c cs)
  have e: "length (py_lower (c # cs)) = length (lower_cp c) + length (py_lower cs)"
    by (simp add: py_lower_def)
  from Cons.prems e length_py_lower_ge[of cs] have "c \<noteq> 304" "length (py_lower cs) = length cs"
    by (auto simp: length_lower_cp split: if_splits)
  with Cons.IH show ?case by simp
qed

lemma lower_cp_single: "c \<noteq> 304 \<Longrightarrow> lower_cp c = [lower_char c]"
proof -
  assume "c \<noteq> 304"
  then have "length (lower_cp c) = 1" by (simp add: length_lower_cp)
  then show ?thesis unfolding lower_char_def by (cases "lower_cp c") auto
qed

lemma py_lower_map: "304 \<notin> set s \<Longrightarrow> py_lower s = map lower_char s"
  by (induction s) (auto simp: py_lower_def lower_cp_single)

lemma lower_cp_changes:
  "lower_cp c \<noteq> [c] \<Longrightarrow>
     (65 \<le> c \<and> c \<le> 90) \<or> (192 \<le> c \<and> c \<le> 222) \<or> c = 304 \<or> (1024 \<le> c \<and> c \<le> 1279)"
  by (simp add: lower_cp_def split: if_splits) linarith+

lemma isspace_ranges:
  "isspace c \<Longrightarrow> c \<le> 32 \<or> c = 133 \<or> c = 160 \<or> 5760 \<le> c"
  unfolding isspace_def by linarith

lemma lower_char_space: "isspace c \<Longrightarrow> lower_char c = c"
proof -
  assume "isspace c"
  from isspace_ranges[OF this] have "lower_cp c = [c]"
    using lower_cp_changes[of c] by linarith
  then show ?thesis by (simp add: lower_char_def)
qed

lemma lower_char_not_space: "\<not> isspace (lower_char c) \<Longrightarrow> \<not> isspace c"
  using lower_char_space by force

lemma keywords_shape:
  "list_all (\<lambda>k. k \<noteq> [] \<and> length k \<le> 200 \<and> \<not> isspace (hd k) \<and> \<not> isspace (last k))
     configured_keywords"
  by (simp add: configured_keywords_def risk_patterns_def benefit_patterns_def
      unclear_patterns_def literal_defs isspace_def)

lemma take_drop_split:
  "a \<le> b \<Longrightarrow> b \<le> c \<Longrightarrow>
     take (c - a) (drop a xs) = take (b - a) (drop a xs) @ take (c - b) (drop b xs)"
proof -
  assume h: "a \<le> b" "b \<le> c"
  then have "c - a = (b - a) + (c - b)" by simp
  then have "take (c - a) (drop a xs) =
             take (b - a) (drop a xs) @ take (c - b) (drop (b - a) (drop a xs))"
    by (simp only: take_add)
  with h show ?thesis by simp
qed

lemma window_holds_match:
  assumes "start + k \<le> length text" "k \<le> 200"
  shows "\<exists>A B. py_slice text (max 0 (int start - 100)) (min (int (length text)) (int start + 200)) =
           A @ take k (drop start text) @ B"
proof -
  define lo where "lo = start - 100"
  define hi where "hi = min (length text) (start + 200)"
  have lo: "max 0 (int start - 100) = int lo" by (auto simp: lo_def)
  have hi: "min (int (length text)) (int start + 200) = int hi" by (auto simp: hi_def)
  have b: "lo \<le> start" "start \<le> start + k" "start + k \<le> hi"
    using assms by (auto simp: lo_def hi_def)
  have "py_slice text (int lo) (int hi) = take (hi - lo) (drop lo text)"
    by (simp add: py_slice_nonneg)
  also have "\<dots> = take (start - lo) (drop lo text) @ take (hi - start) (drop start text)"
    using b by (intro take_drop_split) auto
  also have "take (hi - start) (drop start text) =
             take (start + k - start) (drop start text) @ take (hi - (start + k)) (drop (start + k) text)"
    using b by (intro take_drop_split) auto
  finally show ?thesis unfolding lo hi by auto
qed

lemma dropWhile_keeps_segment:
  assumes "seg \<noteq> []" "\<not> P (hd seg)"
  shows "\<exists>A'. dropWhile P (A @ seg @ B) = A' @ seg @ B"
proof (cases "\<forall>x\<in>set A. P x")
  case True
  from assms have "dropWhile P (seg @ B) = seg @ B" by (cases seg) auto
  with True have "dropWhile P (A @ seg @ B) = [] @ seg @ B"
    by (simp add: dropWhile_append2)
  then show ?thesis by blast
next
  case False
  then obtain x where "x \<in> set A" "\<not> P x" by blast
  then have "dropWhile P (A @ seg @ B) = dropWhile P A @ seg @ B"
    by (rule dropWhile_append1)
  then show ?thesis by blast
qed

lemma set_py_strip: "set (py_strip s) \<subseteq> set s"
proof
  fix x assume "x \<in> set (py_strip s)"
  then have "x \<in> set (dropWhile isspace (rev (dropWhile isspace s)))"
    by (simp add: py_strip_def)
  then have "x \<in> set (rev (dropWhile isspace s))" by (rule set_dropWhileD)
  then have "x \<in> set (dropWhile isspace s)" by simp
  then show "x \<in> set s" by (rule set_dropWhileD)
qed

lemma set_py_slice: "set (py_slice s i j) \<subseteq> set s"
  unfolding py_slice_def Let_def
  by (meson set_take_subset set_drop_subset subset_trans)

lemma py_strip_keeps_segment:
  assumes "seg \<noteq> []" "\<not> isspace (hd seg)" "\<not> isspace (last seg)"
  shows "\<exists>A' B'. py_strip (A @ seg @ B) = A' @ seg @ B'"
proof -
  from dropWhile_keeps_segment[of seg isspace A B, OF assms(1,2)] obtain A' where
    a: "dropWhile isspace (A @ seg @ B) = A' @ seg @ B" by blast
  have r: "rev seg \<noteq> []" "\<not> isspace (hd (rev seg))"
    using assms by (simp_all add: hd_rev)
  from dropWhile_keeps_segment[of "rev seg" isspace "rev B" "rev A'", OF r] obtain B' where
    b: "dropWhile isspace (rev B @ rev seg @ rev A') = B' @ rev seg @ rev A'" by blast
  have "py_strip (A @ seg @ B) = rev (dropWhile isspace (rev B @ rev seg @ rev A'))"
    by (simp add: py_strip_def a)
  also have "\<dots> = A' @ seg @ rev B'" by (simp add: b)
  finally show ?thesis by blast
qed

lemma py_lower_append: "py_lower (a @ b) = py_lower a @ py_lower b"
  by (simp add: py_lower_def)

lemma context_contains_keyword:
  assumes no: "304 \<notin> set (take (start + length kw) text)"
    and occ: "first_occurrence kw (py_lower text) start"
    and shape: "kw \<noteq> []" "length kw \<le> 200" "\<not> isspace (hd kw)" "\<not> isspace (last kw)"
  shows "py_in kw (py_lower (py_strip
           (py_slice text (max 0 (int start - 100)) (min (int (length text)) (int start + 200)))))"
proof -
  define k where "k = length kw"
  define n where "n = start + k"
  define seg where "seg = take k (drop start text)"
  have pre: "py_lower (take n text) = map lower_char (take n text)"
    using no by (simp add: py_lower_map n_def k_def)
  have split: "py_lower text = map lower_char (take n text) @ py_lower (drop n text)"
    using py_lower_append[of "take n text" "drop n text"] pre by simp
  from occ have le: "n \<le> length (py_lower text)"
    and m: "take k (drop start (py_lower text)) = kw"
    unfolding first_occurrence_def k_def n_def by auto
  have fit: "n \<le> length text"
  proof (rule ccontr)
    assume a: "\<not> n \<le> length text"
    then have "take n text = text" by simp
    with pre have "length (py_lower text) = length text" by simp
    with le a show False by simp
  qed
  have seg_take: "seg = drop start (take n text)"
    by (simp add: seg_def n_def drop_take)
  have len_seg: "length seg = k"
    using fit by (simp add: seg_def n_def)
  have "drop start (py_lower text) = map lower_char seg @ py_lower (drop n text)"
    unfolding split using fit by (simp add: seg_take drop_map n_def)
  then have "take k (drop start (py_lower text)) = map lower_char seg"
    using len_seg by simp
  with m have seg_kw: "map lower_char seg = kw" by simp
  with shape(1) have seg_ne: "seg \<noteq> []" by auto
  have "lower_char (hd seg) = hd kw"
    using seg_kw seg_ne by (cases seg) auto
  with shape(3) have h1: "\<not> isspace (hd seg)" using lower_char_not_space by metis
  have "lower_char (last seg) = last kw"
    using seg_kw seg_ne by (metis last_map)
  with shape(4) have h2: "\<not> isspace (last seg)" using lower_char_not_space by metis
  from fit have "start + k \<le> length text" by (simp add: n_def)
  from window_holds_match[OF this] shape(2) obtain A B where
    w: "py_slice text (max 0 (int start - 100)) (min (int (length text)) (int start + 200)) =
          A @ seg @ B"
    unfolding seg_def k_def by blast
  from py_strip_keeps_segment[OF seg_ne h1 h2, of A B] obtain A' B' where
    s: "py_strip (A @ seg @ B) = A' @ seg @ B'" by blast
  have "set seg \<subseteq> set (take n text)"
    unfolding seg_take by (rule set_drop_subset)
  with no have "304 \<notin> set seg" by (auto simp: n_def k_def)
  then have "py_lower seg = kw" using seg_kw by (simp add: py_lower_map)
  then have "py_lower (A' @ seg @ B') = py_lower A' @ kw @ py_lower B'"
    by (simp add: py_lower_append)
  then have "sublist kw (py_lower (A' @ seg @ B'))" by (simp only: sublist_appendI)
  then show ?thesis unfolding w s by (simp add: py_in_sublist)
qed

section \<open>The example with U+0130\<close>

text \<open>
  Each U+0130 of the text becomes the two code points U+0069 U+0307 in the lower-cased
  copy, so the keyword starts at index 101 of the text and at index 202 of the copy.
\<close>

lemma ex_dotted_lower:
  "py_lower ex_dotted_text =
    [105, 775, 105, 775, 105, 775, 105, 775, 105, 775, 105, 775, 105, 775, 105, 775,
     105, 775, 105, 775, 105, 775, 105, 775, 105, 775, 105, 775, 105, 775, 105, 775,
     105, 775, 105, 775, 105, 775, 105, 775, 105, 775, 105, 775, 105, 775, 105, 775,
     105, 775, 105, 775, 105, 775, 105, 775, 105, 775, 105, 775, 105, 775, 105, 775,
     105, 775, 105, 775, 105, 775, 105, 775, 105, 775, 105, 775, 105, 775, 105, 775,
     105, 775, 105, 775, 105, 775, 105, 775, 105, 775, 105, 775, 105, 775, 105, 775,
     105, 775, 105, 775, 105, 775, 105, 775, 105, 775, 105, 775, 105, 775, 105, 775,
     105, 775, 105, 775, 105, 775, 105, 775, 105, 775, 105, 775, 105, 775, 105, 775,
     105, 775, 105, 775, 105, 775, 105, 775, 105, 775, 105, 775, 105, 775, 105, 775,
     105, 775, 105, 775, 105, 775, 105, 775, 105, 775, 105, 775, 105, 775, 105, 775,
     105, 775, 105, 775, 105, 775, 105, 775, 105, 775, 105, 775, 105, 775, 105, 775,
     105, 775, 105, 775, 105, 775, 105, 775, 105, 775, 105, 775, 105, 775, 105, 775,
     105, 775, 105, 775, 105, 775, 105, 775, 105, 775, 1096, 1090, 1088, 1072, 1092]"
  by (simp add: py_lower_def lower_cp_def ex_dotted_text_def)

lemma ex_dotted_find: "py_find (py_lower ex_dotted_text) kw_shtraf = 202"
  unfolding ex_dotted_lower by (simp add: py_find_def kw_shtraf_def)

lemma ex_dotted_context:
  "find_context ex_dotted_text (py_lower ex_dotted_text) kw_shtraf = [1090, 1088, 1072, 1092]"
  unfolding find_context_def ex_dotted_find
  by (simp add: py_slice_def py_strip_def isspace_def ex_dotted_text_def)

lemma ex_dotted_risks:
  "risk_loop ex_dotted_text (py_lower ex_dotted_text) risk_patterns [] =
     [risk_dict rt_shtrafnye_sankcii kw_shtraf [1090, 1088, 1072, 1092]]"
proof -
  have "py_in kw_shtraf (py_lower ex_dotted_text)"
    unfolding ex_dotted_lower by (simp add: kw_shtraf_def)
  then have 1: "risk_hit ex_dotted_text (py_lower ex_dotted_text) rt_shtrafnye_sankcii
             [kw_shtraf, kw_penya, kw_neustojka, kw_sankcii] =
           [risk_dict rt_shtrafnye_sankcii kw_shtraf [1090, 1088, 1072, 1092]]"
    by (simp add: risk_hit_def ex_dotted_context)
  have "list_all (\<lambda>k. \<not> py_in k (py_lower ex_dotted_text))
          (concat (map snd (tl risk_patterns)))"
    unfolding ex_dotted_lower by (simp add: risk_patterns_def literal_defs)
  then have 2: "map (\<lambda>(rt, kws). risk_hit ex_dotted_text (py_lower ex_dotted_text) rt kws)
                  (tl risk_patterns) = [[], [], [], []]"
    by (simp add: risk_patterns_def risk_hit_def)
  have "risk_patterns =
      (rt_shtrafnye_sankcii, [kw_shtraf, kw_penya, kw_neustojka, kw_sankcii]) # tl risk_patterns"
    by (simp add: risk_patterns_def)
  then have "concat (map (\<lambda>(rt, kws). risk_hit ex_dotted_text (py_lower ex_dotted_text) rt kws)
                  risk_patterns) =
             risk_hit ex_dotted_text (py_lower ex_dotted_text) rt_shtrafnye_sankcii
               [kw_shtraf, kw_penya, kw_neustojka, kw_sankcii] @
             concat (map (\<lambda>(rt, kws). risk_hit ex_dotted_text (py_lower ex_dotted_text) rt kws)
                  (tl risk_patterns))"
    by (metis (no_types, lifting) case_prod_conv concat.simps(2) list.simps(9))
  then show ?thesis unfolding 1 2 by (simp add: risk_loop_concat)
qed

section \<open>The rating rule\<close>

text \<open>
  Claim C7. For every list of risk findings the three-branch rating of the source is
  equal to the two-tier rule of the specification, and it is equal to the source's rule
  with the "more than 3 risks" branch deleted: that branch never changes the outcome.
\<close>

theorem rate_equals_simplified:
  "rate rs = rate_simplified rs \<and>
   rate rs =
     (if 0 < length (filter (\<lambda>r. dict_get r k_severity = Some s_vysokij) rs) then s_riskovan
      else if 0 < length rs then s_trebuet_vnimaniya
      else s_bezopasen)"
  by (simp add: rate_def rate_simplified_def Let_def severe_count_pos)

section \<open>The rating of an analysis\<close>

lemma high_keywords:
  "filter (\<lambda>k. risk_severity k = s_vysokij) (concat (map snd risk_patterns)) =
     [kw_shtraf, kw_polnaya_otvetstvennost]"
  by (simp add: risk_patterns_def risk_severity_def literal_defs)

lemma high_severity_keyword_cases:
  assumes "high_severity_keyword kw"
  shows "kw = kw_shtraf \<or> kw = kw_polnaya_otvetstvennost"
proof -
  have "kw \<in> set (filter (\<lambda>k. risk_severity k = s_vysokij) (concat (map snd risk_patterns)))"
    using assms unfolding high_severity_keyword_def by simp
  then show ?thesis unfolding high_keywords by simp
qed

lemma high_severity_keyword_shtraf: "high_severity_keyword kw_shtraf"
  unfolding high_severity_keyword_def risk_patterns_def
  by (simp add: risk_severity_def literal_defs)

lemma risk_loop_has:
  assumes "(rt, kws) \<in> set items" "List.find (\<lambda>k. py_in k lw) kws = Some k"
  shows "risk_dict rt k (find_context text lw k) \<in> set (risk_loop text lw items [])"
proof -
  have "risk_dict rt k (find_context text lw k) \<in> set (risk_hit text lw rt kws)"
    using assms(2) by (simp add: risk_hit_def)
  with assms(1) show ?thesis
    by (auto simp: risk_loop_concat intro!: bexI[of _ "(rt, kws)"])
qed

lemma high_keyword_lower:
  assumes "high_severity_keyword kw"
  shows "py_lower kw = kw"
  using high_severity_keyword_cases[OF assms]
  by (auto simp: py_lower_def lower_cp_def kw_shtraf_def kw_polnaya_otvetstvennost_def)

lemma high_keyword_in_lower:
  assumes "high_severity_keyword kw" "py_in kw text"
  shows "py_in kw (py_lower text)"
proof -
  from assms(2) obtain a b where "text = a @ kw @ b"
    by (auto simp: py_in_sublist sublist_def)
  then have "py_lower text = py_lower a @ kw @ py_lower b"
    by (simp add: py_lower_append high_keyword_lower[OF assms(1)])
  then show ?thesis by (simp add: py_in_sublist)
qed

lemma high_keyword_found:
  assumes "high_severity_keyword kw" "py_in kw lw"
  shows "\<exists>rt. risk_dict rt kw (find_context text lw kw) \<in> set (risk_loop text lw risk_patterns [])"
proof -
  from high_severity_keyword_cases[OF assms(1)] show ?thesis
  proof
    assume kw: "kw = kw_shtraf"
    have "(rt_shtrafnye_sankcii, [kw_shtraf, kw_penya, kw_neustojka, kw_sankcii]) \<in> set risk_patterns"
      by (simp add: risk_patterns_def)
    moreover have "List.find (\<lambda>k. py_in k lw) [kw_shtraf, kw_penya, kw_neustojka, kw_sankcii] = Some kw"
      using assms(2) kw by simp
    ultimately show ?thesis using risk_loop_has by blast
  next
    assume kw: "kw = kw_polnaya_otvetstvennost"
    have "(rt_vysokaya_otvetstvennost,
           [kw_polnaya_otvetstvennost, kw_vozmeshchenie_vseh, kw_solidarnaya_otvetstvennost])
          \<in> set risk_patterns"
      by (simp add: risk_patterns_def)
    moreover have "List.find (\<lambda>k. py_in k lw)
        [kw_polnaya_otvetstvennost, kw_vozmeshchenie_vseh, kw_solidarnaya_otvetstvennost] = Some kw"
      using assms(2) kw by simp
    ultimately show ?thesis using risk_loop_has by blast
  qed
qed

text \<open>
  Claim C1. For every input text the analyzer returns an analysis whose rating is
  "riskovan" when some extracted risk has the severity "vysokij", otherwise "trebuet
  vnimaniya" when there is at least one risk, otherwise "bezopasen". In particular, when
  the text, as it is or lower-cased, contains a high-severity risk keyword the rating is
  "riskovan", whatever the benefits and the unclear terms are.
\<close>

theorem overall_rating_rule:
  "\<exists>d. analyze_document text fname u n = Inr d \<and>
       overall_rating d =
         (if list_ex (\<lambda>r. dict_get r k_severity = Some s_vysokij) (risks d) then s_riskovan
          else if risks d \<noteq> [] then s_trebuet_vnimaniya
          else s_bezopasen) \<and>
       (high_severity_keyword kw \<and> (py_in kw text \<or> py_in kw (py_lower text)) \<longrightarrow>
          overall_rating d = s_riskovan)"
proof -
  obtain d where d: "analyze_document text fname u n = Inr d"
    using analyze_document_Inr[of "text" fname u n] by blast
  note f = analyze_document_fields[OF d]
  have rule: "overall_rating d =
         (if list_ex (\<lambda>r. dict_get r k_severity = Some s_vysokij) (risks d) then s_riskovan
          else if risks d \<noteq> [] then s_trebuet_vnimaniya
          else s_bezopasen)"
    by (simp add: f(7) rate_def Let_def severe_count_pos)
  have "overall_rating d = s_riskovan"
    if h: "high_severity_keyword kw" and p: "py_in kw text \<or> py_in kw (py_lower text)"
  proof -
    from p high_keyword_in_lower[OF h] have "py_in kw (py_lower text)" by blast
    from high_keyword_found[OF h this] obtain rt where
      "risk_dict rt kw (find_context text (py_lower text) kw) \<in> set (risks d)"
      unfolding f(4) by blast
    moreover have "dict_get (risk_dict rt kw (find_context text (py_lower text) kw)) k_severity
                   = Some s_vysokij"
      using h by (simp add: risk_dict_get high_severity_keyword_def)
    ultimately have "list_ex (\<lambda>r. dict_get r k_severity = Some s_vysokij) (risks d)"
      unfolding list_ex_iff by blast
    with rule show ?thesis by simp
  qed
  with d rule show ?thesis by blast
qed

theorem overall_rating_rule_witness:
  "high_severity_keyword kw_shtraf \<and> py_in kw_shtraf (py_lower ex_shtraf_text) \<and>
   map_sum id overall_rating (analyze_document ex_shtraf_text ex_filename ex_id ex_now) =
     Inr s_riskovan"
proof -
  have h: "high_severity_keyword kw_shtraf" by (rule high_severity_keyword_shtraf)
  have p: "py_in kw_shtraf (py_lower ex_shtraf_text)"
    by (simp add: py_lower_def lower_cp_def ex_shtraf_text_def kw_shtraf_def)
  from overall_rating_rule[of ex_shtraf_text ex_filename ex_id ex_now kw_shtraf] h p
  have "\<exists>d. analyze_document ex_shtraf_text ex_filename ex_id ex_now = Inr d \<and>
            overall_rating d = s_riskovan"
    by blast
  then have "map_sum id overall_rating (analyze_document ex_shtraf_text ex_filename ex_id ex_now) =
     Inr s_riskovan" by auto
  with h p show ?thesis by blast
qed

section \<open>One finding per subtype, in table order\<close>

lemma pattern_types_distinct:
  "distinct (map fst risk_patterns)" "distinct (map fst benefit_patterns)"
  by (simp_all add: risk_patterns_def benefit_patterns_def literal_defs)

lemma pattern_table_lengths:
  "length risk_patterns = 5" "length benefit_patterns = 4" "length unclear_patterns = 9"
  by (simp_all add: risk_patterns_def benefit_patterns_def unclear_patterns_def)

lemma find_first:
  "\<forall>y\<in>set pre. \<not> P y \<Longrightarrow> P x \<Longrightarrow> List.find P (pre @ x # post) = Some x"
  by (induction pre) auto

lemma length_risk_hit: "length (risk_hit text lw rt kws) \<le> 1"
  by (simp add: risk_hit_def split: option.splits)

lemma length_benefit_hit: "length (benefit_hit text lw bt kws) \<le> 1"
  by (simp add: benefit_hit_def split: option.splits)

lemma filter_type_risk_hit:
  "filter (\<lambda>r. dict_get r k_type = Some rt) (risk_hit text lw t ks) =
     (if t = rt then risk_hit text lw t ks else [])"
  by (simp add: risk_hit_def risk_dict_get split: option.splits)

lemma filter_type_benefit_hit:
  "filter (\<lambda>r. dict_get r k_type = Some bt) (benefit_hit text lw t ks) =
     (if t = bt then benefit_hit text lw t ks else [])"
  by (simp add: benefit_hit_def benefit_dict_get split: option.splits)

lemma filter_type_risks_absent:
  "rt \<notin> fst ` set items \<Longrightarrow>
     filter (\<lambda>r. dict_get r k_type = Some rt)
       (concat (map (\<lambda>(t, ks). risk_hit text lw t ks) items)) = []"
  by (induction items) (auto simp: filter_type_risk_hit)

lemma filter_type_risks_present:
  "distinct (map fst items) \<Longrightarrow> (rt, kws) \<in> set items \<Longrightarrow>
     filter (\<lambda>r. dict_get r k_type = Some rt)
       (concat (map (\<lambda>(t, ks). risk_hit text lw t ks) items)) = risk_hit text lw rt kws"
proof (induction items)
  case Nil
  then show ?case by simp
next
  case (Cons item items)
  obtain t ks where item: "item = (t, ks)" by (cases item)
  show ?case
  proof (cases "t = rt")
    case True
    with Cons.prems item have "ks = kws" "rt \<notin> fst ` set items"
      by (auto simp: image_iff)
    with True item show ?thesis
      by (simp add: filter_type_risk_hit filter_type_risks_absent)
  next
    case False
    with Cons.prems item have "(rt, kws) \<in> set items" "distinct (map fst items)" by auto
    with Cons.IH False item show ?thesis by (simp add: filter_type_risk_hit)
  qed
qed

lemma filter_type_benefits_absent:
  "bt \<notin> fst ` set items \<Longrightarrow>
     filter (\<lambda>r. dict_get r k_type = Some bt)
       (concat (map (\<lambda>(t, ks). benefit_hit text lw t ks) items)) = []"
  by (induction items) (auto simp: filter_type_benefit_hit)

lemma filter_type_benefits_present:
  "distinct (map fst items) \<Longrightarrow> (bt, kws) \<in> set items \<Longrightarrow>
     filter (\<lambda>r. dict_get r k_type = Some bt)
       (concat (map (\<lambda>(t, ks). benefit_hit text lw t ks) items)) = benefit_hit text lw bt kws"
proof (induction items)
  case Nil
  then show ?case by simp
next
  case (Cons item items)
  obtain t ks where item: "item = (t, ks)" by (cases item)
  show ?case
  proof (cases "t = bt")
    case True
    with Cons.prems item have "ks = kws" "bt \<notin> fst ` set items"
      by (auto simp: image_iff)
    with True item show ?thesis
      by (simp add: filter_type_benefit_hit filter_type_benefits_absent)
  next
    case False
    with Cons.prems item have "(bt, kws) \<in> set items" "distinct (map fst items)" by auto
    with Cons.IH False item show ?thesis by (simp add: filter_type_benefit_hit)
  qed
qed

lemma risks_of_type_le1:
  "length (filter (\<lambda>r. dict_get r k_type = Some rt) (risk_loop text lw risk_patterns [])) \<le> 1"
proof (cases "rt \<in> fst ` set risk_patterns")
  case True
  then obtain kws where "(rt, kws) \<in> set risk_patterns" by auto
  from filter_type_risks_present[OF pattern_types_distinct(1) this, of "text" lw]
    length_risk_hit[of "text" lw rt kws]
  show ?thesis by (simp add: risk_loop_concat)
next
  case False
  from filter_type_risks_absent[OF this] show ?thesis by (simp add: risk_loop_concat)
qed

lemma benefits_of_type_le1:
  "length (filter (\<lambda>r. dict_get r k_type = Some bt) (benefit_loop text lw benefit_patterns [])) \<le> 1"
proof (cases "bt \<in> fst ` set benefit_patterns")
  case True
  then obtain kws where "(bt, kws) \<in> set benefit_patterns" by auto
  from filter_type_benefits_present[OF pattern_types_distinct(2) this, of "text" lw]
    length_benefit_hit[of "text" lw bt kws]
  show ?thesis by (simp add: benefit_loop_concat)
next
  case False
  from filter_type_benefits_absent[OF this] show ?thesis by (simp add: benefit_loop_concat)
qed

lemma risks_of_type_first:
  assumes "(rt, pre @ k # post) \<in> set risk_patterns" "\<forall>k'\<in>set pre. \<not> py_in k' lw" "py_in k lw"
  shows "filter (\<lambda>r. dict_get r k_type = Some rt) (risk_loop text lw risk_patterns []) =
           [risk_dict rt k (find_context text lw k)]"
  using filter_type_risks_present[OF pattern_types_distinct(1) assms(1)] find_first[of pre "\<lambda>k. py_in k lw" k post] assms(2,3)
  by (simp add: risk_loop_concat risk_hit_def)

lemma benefits_of_type_first:
  assumes "(bt, pre @ k # post) \<in> set benefit_patterns" "\<forall>k'\<in>set pre. \<not> py_in k' lw" "py_in k lw"
  shows "filter (\<lambda>r. dict_get r k_type = Some bt) (benefit_loop text lw benefit_patterns []) =
           [benefit_dict bt k (find_context text lw k)]"
  using filter_type_benefits_present[OF pattern_types_distinct(2) assms(1)] find_first[of pre "\<lambda>k. py_in k lw" k post] assms(2,3)
  by (simp add: benefit_loop_concat benefit_hit_def)

text \<open>
  Claim C3. Every risk type and every benefit type contributes at most one finding.
  When a type's keyword list is \<open>pre @ k # post\<close>, no keyword of \<open>pre\<close> occurs in the
  lower-cased text and \<open>k\<close> does, the findings of that type are exactly the one for
  \<open>k\<close>, whichever keywords of \<open>post\<close> occur as well: the keyword earliest in the
  declared list wins and the later ones are not recorded.
\<close>

theorem one_finding_per_subtype:
  "\<exists>d. analyze_document text fname u n = Inr d \<and>
     length (filter (\<lambda>r. dict_get r k_type = Some rt) (risks d)) \<le> 1 \<and>
     length (filter (\<lambda>r. dict_get r k_type = Some bt) (benefits d)) \<le> 1 \<and>
     ((rt, pre @ k # post) \<in> set risk_patterns \<and>
      (\<forall>k'\<in>set pre. \<not> py_in k' (py_lower text)) \<and> py_in k (py_lower text) \<longrightarrow>
        filter (\<lambda>r. dict_get r k_type = Some rt) (risks d) =
          [risk_dict rt k (find_context text (py_lower text) k)]) \<and>
     ((bt, bpre @ bk # bpost) \<in> set benefit_patterns \<and>
      (\<forall>k'\<in>set bpre. \<not> py_in k' (py_lower text)) \<and> py_in bk (py_lower text) \<longrightarrow>
        filter (\<lambda>r. dict_get r k_type = Some bt) (benefits d) =
          [benefit_dict bt bk (find_context text (py_lower text) bk)])"
proof -
  obtain d where d: "analyze_document text fname u n = Inr d"
    using analyze_document_Inr[of "text" fname u n] by blast
  note f = analyze_document_fields[OF d]
  have a: "length (filter (\<lambda>r. dict_get r k_type = Some rt) (risks d)) \<le> 1"
    unfolding f(4) by (rule risks_of_type_le1)
  have b: "length (filter (\<lambda>r. dict_get r k_type = Some bt) (benefits d)) \<le> 1"
    unfolding f(5) by (rule benefits_of_type_le1)
  have c: "(rt, pre @ k # post) \<in> set risk_patterns \<and>
      (\<forall>k'\<in>set pre. \<not> py_in k' (py_lower text)) \<and> py_in k (py_lower text) \<longrightarrow>
        filter (\<lambda>r. dict_get r k_type = Some rt) (risks d) =
          [risk_dict rt k (find_context text (py_lower text) k)]"
    unfolding f(4) using risks_of_type_first by blast
  have e: "(bt, bpre @ bk # bpost) \<in> set benefit_patterns \<and>
      (\<forall>k'\<in>set bpre. \<not> py_in k' (py_lower text)) \<and> py_in bk (py_lower text) \<longrightarrow>
        filter (\<lambda>r. dict_get r k_type = Some bt) (benefits d) =
          [benefit_dict bt bk (find_context text (py_lower text) bk)]"
    unfolding f(5) using benefits_of_type_first by blast
  from d a b c e show ?thesis by blast
qed

lemma ex_two_keywords_lower:
  "py_lower ex_two_keywords_text = 1087 # tl ex_two_keywords_text"
  by (simp add: py_lower_def lower_cp_def ex_two_keywords_text_def)

lemma ex_two_keywords_found:
  "\<not> py_in kw_razumnyj_srok (py_lower ex_two_keywords_text)"
  "\<not> py_in kw_v_kratchajshie_sroki (py_lower ex_two_keywords_text)"
  "py_in kw_nezamedlitelno (py_lower ex_two_keywords_text)"
  "py_in kw_bez_promedleniya (py_lower ex_two_keywords_text)"
  "\<not> py_in kw_strahovanie (py_lower ex_two_keywords_text)"
  "py_in kw_kompensaciya (py_lower ex_two_keywords_text)"
  "py_in kw_vozmeshchenie (py_lower ex_two_keywords_text)"
  unfolding ex_two_keywords_lower
  by (simp_all add: ex_two_keywords_text_def literal_defs)

lemma ex_two_keywords_contexts:
  "find_context ex_two_keywords_text (py_lower ex_two_keywords_text) kw_nezamedlitelno =
     ex_two_keywords_text"
  "find_context ex_two_keywords_text (py_lower ex_two_keywords_text) kw_kompensaciya =
     ex_two_keywords_text"
  unfolding ex_two_keywords_lower
  by (simp_all add: find_context_def py_find_def py_slice_def py_strip_def isspace_def
      ex_two_keywords_text_def literal_defs)

theorem one_finding_per_subtype_witness:
  "(rt_neopredelennye_sroki,
      [kw_razumnyj_srok, kw_v_kratchajshie_sroki] @ kw_nezamedlitelno # [kw_bez_promedleniya])
     \<in> set risk_patterns \<and>
   \<not> py_in kw_razumnyj_srok (py_lower ex_two_keywords_text) \<and>
   \<not> py_in kw_v_kratchajshie_sroki (py_lower ex_two_keywords_text) \<and>
   py_in kw_nezamedlitelno (py_lower ex_two_keywords_text) \<and>
   py_in kw_bez_promedleniya (py_lower ex_two_keywords_text) \<and>
   map_sum id (filter (\<lambda>r. dict_get r k_type = Some rt_neopredelennye_sroki) \<circ> risks)
     (analyze_document ex_two_keywords_text ex_filename ex_id ex_now) =
     Inr [risk_dict rt_neopredelennye_sroki kw_nezamedlitelno ex_two_keywords_text] \<and>
   (bt_zashchita_interesov, [kw_strahovanie] @ kw_kompensaciya # [kw_vozmeshchenie])
     \<in> set benefit_patterns \<and>
   \<not> py_in kw_strahovanie (py_lower ex_two_keywords_text) \<and>
   py_in kw_kompensaciya (py_lower ex_two_keywords_text) \<and>
   py_in kw_vozmeshchenie (py_lower ex_two_keywords_text) \<and>
   map_sum id (filter (\<lambda>r. dict_get r k_type = Some bt_zashchita_interesov) \<circ> benefits)
     (analyze_document ex_two_keywords_text ex_filename ex_id ex_now) =
     Inr [benefit_dict bt_zashchita_interesov kw_kompensaciya ex_two_keywords_text]"
proof -
  note fnd = ex_two_keywords_found
  have r: "(rt_neopredelennye_sroki,
      [kw_razumnyj_srok, kw_v_kratchajshie_sroki] @ kw_nezamedlitelno # [kw_bez_promedleniya])
     \<in> set risk_patterns"
    by (simp add: risk_patterns_def)
  have b: "(bt_zashchita_interesov, [kw_strahovanie] @ kw_kompensaciya # [kw_vozmeshchenie])
     \<in> set benefit_patterns"
    by (simp add: benefit_patterns_def)
  have pre: "\<forall>k'\<in>set [kw_razumnyj_srok, kw_v_kratchajshie_sroki].
               \<not> py_in k' (py_lower ex_two_keywords_text)"
    using fnd(1,2) by simp
  have bpre: "\<forall>k'\<in>set [kw_strahovanie]. \<not> py_in k' (py_lower ex_two_keywords_text)"
    using fnd(5) by simp
  from one_finding_per_subtype[of ex_two_keywords_text ex_filename ex_id ex_now
      rt_neopredelennye_sroki bt_zashchita_interesov
      "[kw_razumnyj_srok, kw_v_kratchajshie_sroki]" kw_nezamedlitelno "[kw_bez_promedleniya]"
      "[kw_strahovanie]" kw_kompensaciya "[kw_vozmeshchenie]"]
  obtain d where d: "analyze_document ex_two_keywords_text ex_filename ex_id ex_now = Inr d"
    and rs: "filter (\<lambda>r. dict_get r k_type = Some rt_neopredelennye_sroki) (risks d) =
          [risk_dict rt_neopredelennye_sroki kw_nezamedlitelno
             (find_context ex_two_keywords_text (py_lower ex_two_keywords_text) kw_nezamedlitelno)]"
    and bs: "filter (\<lambda>r. dict_get r k_type = Some bt_zashchita_interesov) (benefits d) =
          [benefit_dict bt_zashchita_interesov kw_kompensaciya
             (find_context ex_two_keywords_text (py_lower ex_two_keywords_text) kw_kompensaciya)]"
    using r b pre bpre fnd(3,6) by blast
  from d rs bs have
    "map_sum id (filter (\<lambda>r. dict_get r k_type = Some rt_neopredelennye_sroki) \<circ> risks)
       (analyze_document ex_two_keywords_text ex_filename ex_id ex_now) =
     Inr [risk_dict rt_neopredelennye_sroki kw_nezamedlitelno ex_two_keywords_text]"
    "map_sum id (filter (\<lambda>r. dict_get r k_type = Some bt_zashchita_interesov) \<circ> benefits)
       (analyze_document ex_two_keywords_text ex_filename ex_id ex_now) =
     Inr [benefit_dict bt_zashchita_interesov kw_kompensaciya ex_two_keywords_text]"
    by (simp_all add: ex_two_keywords_contexts)
  with r b fnd show ?thesis by blast
qed

section \<open>Bounds on the findings\<close>

lemma find_None_list_ex: "List.find P xs = None \<longleftrightarrow> \<not> list_ex P xs"
  by (auto simp: find_None_iff list_ex_iff)

lemma types_of_risk_loop:
  "map (\<lambda>r. dict_get r k_type) (risk_loop text lw items []) =
     map (Some \<circ> fst) (filter (\<lambda>(rt, kws). list_ex (\<lambda>k. py_in k lw) kws) items)"
proof -
  have "map (\<lambda>r. dict_get r k_type) (concat (map (\<lambda>(rt, kws). risk_hit text lw rt kws) items)) =
        map (Some \<circ> fst) (filter (\<lambda>(rt, kws). list_ex (\<lambda>k. py_in k lw) kws) items)"
  proof (induction items)
    case Nil
    then show ?case by simp
  next
    case (Cons item items)
    obtain rt kws where item: "item = (rt, kws)" by (cases item)
    show ?case
    proof (cases "List.find (\<lambda>k. py_in k lw) kws")
      case None
      then have "\<not> list_ex (\<lambda>k. py_in k lw) kws" by (simp add: find_None_list_ex)
      with None Cons.IH item show ?thesis by (simp add: risk_hit_def)
    next
      case (Some k)
      then have "list_ex (\<lambda>k. py_in k lw) kws"
        using find_None_list_ex[of "\<lambda>k. py_in k lw" kws] by simp
      with Some Cons.IH item show ?thesis by (simp add: risk_hit_def risk_dict_get)
    qed
  qed
  then show ?thesis by (simp add: risk_loop_concat)
qed

lemma types_of_benefit_loop:
  "map (\<lambda>r. dict_get r k_type) (benefit_loop text lw items []) =
     map (Some \<circ> fst) (filter (\<lambda>(bt, kws). list_ex (\<lambda>k. py_in k lw) kws) items)"
proof -
  have "map (\<lambda>r. dict_get r k_type) (concat (map (\<lambda>(bt, kws). benefit_hit text lw bt kws) items)) =
        map (Some \<circ> fst) (filter (\<lambda>(bt, kws). list_ex (\<lambda>k. py_in k lw) kws) items)"
  proof (induction items)
    case Nil
    then show ?case by simp
  next
    case (Cons item items)
    obtain bt kws where item: "item = (bt, kws)" by (cases item)
    show ?case
    proof (cases "List.find (\<lambda>k. py_in k lw) kws")
      case None
      then have "\<not> list_ex (\<lambda>k. py_in k lw) kws" by (simp add: find_None_list_ex)
      with None Cons.IH item show ?thesis by (simp add: benefit_hit_def)
    next
      case (Some k)
      then have "list_ex (\<lambda>k. py_in k lw) kws"
        using find_None_list_ex[of "\<lambda>k. py_in k lw" kws] by simp
      with Some Cons.IH item show ?thesis by (simp add: benefit_hit_def benefit_dict_get)
    qed
  qed
  then show ?thesis by (simp add: benefit_loop_concat)
qed

lemma length_risk_loop: "length (risk_loop text lw items []) \<le> length items"
proof -
  have "length (risk_loop text lw items []) =
        length (map (\<lambda>r. dict_get r k_type) (risk_loop text lw items []))" by simp
  also have "\<dots> \<le> length items" unfolding types_of_risk_loop by simp
  finally show ?thesis .
qed

lemma length_benefit_loop: "length (benefit_loop text lw items []) \<le> length items"
proof -
  have "length (benefit_loop text lw items []) =
        length (map (\<lambda>r. dict_get r k_type) (benefit_loop text lw items []))" by simp
  also have "\<dots> \<le> length items" unfolding types_of_benefit_loop by simp
  finally show ?thesis .
qed

lemma length_unclear_loop: "length (unclear_loop text lw ps []) \<le> length ps"
  by (simp add: unclear_loop_filter)

text \<open>
  Claim C10. For every input text the analysis has at most 5 risks, at most 4 benefits
  and at most 9 unclear terms. The types of the risks are those of the items of
  \<open>risk_patterns\<close> with a keyword in the lower-cased text, in the order of the table,
  and likewise for the benefits; the unclear terms are the dicts of the phrases of
  \<open>unclear_patterns\<close> that occur in the lower-cased text, one per phrase, in the order
  of the list, each with the context found from the phrase's first occurrence.
\<close>

theorem findings_bounded:
  "\<exists>d. analyze_document text fname u n = Inr d \<and>
     length (risks d) \<le> 5 \<and> length (benefits d) \<le> 4 \<and> length (unclear_terms d) \<le> 9 \<and>
     map (\<lambda>r. dict_get r k_type) (risks d) =
       map (Some \<circ> fst)
         (filter (\<lambda>(rt, kws). list_ex (\<lambda>k. py_in k (py_lower text)) kws) risk_patterns) \<and>
     subseq (map (\<lambda>r. dict_get r k_type) (risks d)) (map (Some \<circ> fst) risk_patterns) \<and>
     map (\<lambda>r. dict_get r k_type) (benefits d) =
       map (Some \<circ> fst)
         (filter (\<lambda>(bt, kws). list_ex (\<lambda>k. py_in k (py_lower text)) kws) benefit_patterns) \<and>
     subseq (map (\<lambda>r. dict_get r k_type) (benefits d)) (map (Some \<circ> fst) benefit_patterns) \<and>
     unclear_terms d =
       map (\<lambda>p. unclear_dict p (find_context text (py_lower text) p))
         (filter (\<lambda>p. py_in p (py_lower text)) unclear_patterns) \<and>
     subseq (map (\<lambda>r. dict_get r k_phrase) (unclear_terms d)) (map Some unclear_patterns)"
proof -
  obtain d where d: "analyze_document text fname u n = Inr d"
    using analyze_document_Inr[of "text" fname u n] by blast
  note f = analyze_document_fields[OF d]
  have l1: "length (risks d) \<le> 5"
    unfolding f(4) using length_risk_loop[of "text" "py_lower text" risk_patterns]
    by (simp add: pattern_table_lengths)
  have l2: "length (benefits d) \<le> 4"
    unfolding f(5) using length_benefit_loop[of "text" "py_lower text" benefit_patterns]
    by (simp add: pattern_table_lengths)
  have l3: "length (unclear_terms d) \<le> 9"
    unfolding f(6) using length_unclear_loop[of "text" "py_lower text" unclear_patterns]
    by (simp add: pattern_table_lengths)
  have t1: "map (\<lambda>r. dict_get r k_type) (risks d) =
       map (Some \<circ> fst)
         (filter (\<lambda>(rt, kws). list_ex (\<lambda>k. py_in k (py_lower text)) kws) risk_patterns)"
    unfolding f(4) by (rule types_of_risk_loop)
  have s1: "subseq (map (\<lambda>r. dict_get r k_type) (risks d)) (map (Some \<circ> fst) risk_patterns)"
    unfolding t1 by (rule subseq_map) simp
  have t2: "map (\<lambda>r. dict_get r k_type) (benefits d) =
       map (Some \<circ> fst)
         (filter (\<lambda>(bt, kws). list_ex (\<lambda>k. py_in k (py_lower text)) kws) benefit_patterns)"
    unfolding f(5) by (rule types_of_benefit_loop)
  have s2: "subseq (map (\<lambda>r. dict_get r k_type) (benefits d)) (map (Some \<circ> fst) benefit_patterns)"
    unfolding t2 by (rule subseq_map) simp
  have t3: "unclear_terms d =
       map (\<lambda>p. unclear_dict p (find_context text (py_lower text) p))
         (filter (\<lambda>p. py_in p (py_lower text)) unclear_patterns)"
    unfolding f(6) by (simp add: unclear_loop_filter)
  have "map (\<lambda>r. dict_get r k_phrase) (unclear_terms d) =
        map Some (filter (\<lambda>p. py_in p (py_lower text)) unclear_patterns)"
    unfolding t3 by (simp add: unclear_dict_get comp_def)
  then have s3: "subseq (map (\<lambda>r. dict_get r k_phrase) (unclear_terms d)) (map Some unclear_patterns)"
    by (simp add: subseq_map)
  from d l1 l2 l3 t1 s1 t2 s2 t3 s3 show ?thesis by blast
qed

lemma ex_rich_lower: "py_lower ex_rich_text = 1096 # tl ex_rich_text"
  by (simp add: py_lower_def lower_cp_def ex_rich_text_def)

lemma ex_rich_risk_types:
  "filter (\<lambda>(rt, kws). list_ex (\<lambda>k. py_in k (py_lower ex_rich_text)) kws) risk_patterns =
     [(rt_shtrafnye_sankcii, [kw_shtraf, kw_penya, kw_neustojka, kw_sankcii]),
      (rt_neopredelennye_sroki,
       [kw_razumnyj_srok, kw_v_kratchajshie_sroki, kw_nezamedlitelno, kw_bez_promedleniya])]"
  unfolding ex_rich_lower
  by (simp add: risk_patterns_def ex_rich_text_def literal_defs)

lemma ex_rich_benefit_types:
  "filter (\<lambda>(bt, kws). list_ex (\<lambda>k. py_in k (py_lower ex_rich_text)) kws) benefit_patterns =
     [(bt_garantii, [kw_garantiya, kw_garantiruet, kw_obyazuetsya]),
      (bt_vozvrat_sredstv, [kw_vozvrat, kw_vozmeshchenie_platezha, kw_kompensaciya_rashodov])]"
  unfolding ex_rich_lower
  by (simp add: benefit_patterns_def ex_rich_text_def literal_defs)

lemma ex_rich_unclear:
  "filter (\<lambda>p. py_in p (py_lower ex_rich_text)) unclear_patterns =
     [kw_v_ustanovlennom_poryadke, kw_razumnyj_srok]"
  unfolding ex_rich_lower
  by (simp add: unclear_patterns_def ex_rich_text_def literal_defs)

theorem findings_bounded_witness:
  "map_sum id (map (\<lambda>r. dict_get r k_type) \<circ> risks)
     (analyze_document ex_rich_text ex_filename ex_id ex_now) =
     Inr [Some rt_shtrafnye_sankcii, Some rt_neopredelennye_sroki] \<and>
   map_sum id (map (\<lambda>r. dict_get r k_type) \<circ> benefits)
     (analyze_document ex_rich_text ex_filename ex_id ex_now) =
     Inr [Some bt_garantii, Some bt_vozvrat_sredstv] \<and>
   map_sum id (map (\<lambda>r. dict_get r k_phrase) \<circ> unclear_terms)
     (analyze_document ex_rich_text ex_filename ex_id ex_now) =
     Inr [Some kw_v_ustanovlennom_poryadke, Some kw_razumnyj_srok]"
proof -
  from findings_bounded[of ex_rich_text ex_filename ex_id ex_now]
  obtain d where d: "analyze_document ex_rich_text ex_filename ex_id ex_now = Inr d"
    and r: "map (\<lambda>r. dict_get r k_type) (risks d) =
       map (Some \<circ> fst)
         (filter (\<lambda>(rt, kws). list_ex (\<lambda>k. py_in k (py_lower ex_rich_text)) kws) risk_patterns)"
    and b: "map (\<lambda>r. dict_get r k_type) (benefits d) =
       map (Some \<circ> fst)
         (filter (\<lambda>(bt, kws). list_ex (\<lambda>k. py_in k (py_lower ex_rich_text)) kws) benefit_patterns)"
    and u: "unclear_terms d =
       map (\<lambda>p. unclear_dict p (find_context ex_rich_text (py_lower ex_rich_text) p))
         (filter (\<lambda>p. py_in p (py_lower ex_rich_text)) unclear_patterns)"
    by blast
  have "map (\<lambda>r. dict_get r k_phrase) (unclear_terms d) =
          [Some kw_v_ustanovlennom_poryadke, Some kw_razumnyj_srok]"
    unfolding u ex_rich_unclear by (simp add: unclear_dict_get)
  with d r b show ?thesis
    unfolding ex_rich_risk_types ex_rich_benefit_types by simp
qed

section \<open>Text without keywords\<close>

lemma configured_keywords_nonempty: "[] \<notin> set configured_keywords"
  by (simp add: configured_keywords_def risk_patterns_def benefit_patterns_def
      unclear_patterns_def literal_defs)

lemma py_lower_Nil: "py_lower [] = []"
  by (simp add: py_lower_def)

lemma no_keywords_no_findings:
  assumes "\<forall>kw\<in>set configured_keywords. \<not> py_in kw lw"
  shows "risk_loop text lw risk_patterns [] = []"
    and "benefit_loop text lw benefit_patterns [] = []"
    and "unclear_loop text lw unclear_patterns [] = []"
proof -
  show "risk_loop text lw risk_patterns [] = []"
  proof (cases "risk_loop text lw risk_patterns []")
    case Nil
    then show ?thesis .
  next
    case (Cons r rs)
    then have "r \<in> set (risk_loop text lw risk_patterns [])" by simp
    from risk_loop_elem[OF this] obtain rt kws k where
      k: "(rt, kws) \<in> set risk_patterns" "k \<in> set kws" "py_in k lw" by blast
    then have "k \<in> set configured_keywords"
      by (force simp: configured_keywords_def)
    with assms k(3) show ?thesis by blast
  qed
  show "benefit_loop text lw benefit_patterns [] = []"
  proof (cases "benefit_loop text lw benefit_patterns []")
    case Nil
    then show ?thesis .
  next
    case (Cons r rs)
    then have "r \<in> set (benefit_loop text lw benefit_patterns [])" by simp
    from benefit_loop_elem[OF this] obtain bt kws k where
      k: "(bt, kws) \<in> set benefit_patterns" "k \<in> set kws" "py_in k lw" by blast
    then have "k \<in> set configured_keywords"
      by (force simp: configured_keywords_def)
    with assms k(3) show ?thesis by blast
  qed
  have "filter (\<lambda>p. py_in p lw) unclear_patterns = []"
    using assms by (auto simp: filter_empty_conv configured_keywords_def)
  then show "unclear_loop text lw unclear_patterns [] = []"
    by (simp add: unclear_loop_filter)
qed

lemma rate_Nil: "rate [] = s_bezopasen"
  by (simp add: rate_def)

text \<open>
  Claim C8. When no keyword or phrase of the three tables occurs in the lower-cased text,
  the analyzer returns an analysis with no risks, no benefits and no unclear terms, rated
  "bezopasen". The empty text is such a text: it is analysed, not rejected.
\<close>

theorem no_keywords_safe:
  "((\<forall>kw\<in>set configured_keywords. \<not> py_in kw (py_lower text)) \<longrightarrow>
      (\<exists>d. analyze_document text fname u n = Inr d \<and>
           risks d = [] \<and> benefits d = [] \<and> unclear_terms d = [] \<and>
           overall_rating d = s_bezopasen)) \<and>
   (\<exists>d. analyze_document [] fname u n = Inr d \<and>
        risks d = [] \<and> benefits d = [] \<and> unclear_terms d = [] \<and>
        overall_rating d = s_bezopasen)"
proof -
  have gen: "\<exists>d. analyze_document t fname u n = Inr d \<and>
           risks d = [] \<and> benefits d = [] \<and> unclear_terms d = [] \<and>
           overall_rating d = s_bezopasen"
    if h: "\<forall>kw\<in>set configured_keywords. \<not> py_in kw (py_lower t)" for t
  proof -
    obtain d where d: "analyze_document t fname u n = Inr d"
      using analyze_document_Inr[of t fname u n] by blast
    note f = analyze_document_fields[OF d]
    note e = no_keywords_no_findings[OF h, of t]
    have "risks d = []" "benefits d = []" "unclear_terms d = []"
      by (simp_all add: f e)
    moreover from this have "overall_rating d = s_bezopasen" by (simp add: f(7) rate_Nil)
    ultimately show ?thesis using d by blast
  qed
  have "\<forall>kw\<in>set configured_keywords. \<not> py_in kw (py_lower [])"
    using configured_keywords_nonempty by (auto simp: py_lower_Nil)
  from gen[OF this] gen[of "text"] show ?thesis by blast
qed

lemma ex_neutral_no_keywords:
  "list_all (\<lambda>kw. \<not> py_in kw (py_lower ex_neutral_text)) configured_keywords"
  by (simp add: configured_keywords_def risk_patterns_def benefit_patterns_def
      unclear_patterns_def ex_neutral_text_def literal_defs py_lower_def lower_cp_def)

theorem no_keywords_safe_witness:
  "list_all (\<lambda>kw. \<not> py_in kw (py_lower ex_neutral_text)) configured_keywords \<and>
   map_sum id risks (analyze_document ex_neutral_text ex_filename ex_id ex_now) = Inr [] \<and>
   map_sum id benefits (analyze_document ex_neutral_text ex_filename ex_id ex_now) = Inr [] \<and>
   map_sum id unclear_terms (analyze_document ex_neutral_text ex_filename ex_id ex_now) = Inr [] \<and>
   map_sum id overall_rating (analyze_document ex_neutral_text ex_filename ex_id ex_now) =
     Inr s_bezopasen"
proof -
  have h: "\<forall>kw\<in>set configured_keywords. \<not> py_in kw (py_lower ex_neutral_text)"
    using ex_neutral_no_keywords by (simp add: list_all_iff)
  from no_keywords_safe[of ex_neutral_text ex_filename ex_id ex_now] h
  obtain d where "analyze_document ex_neutral_text ex_filename ex_id ex_now = Inr d"
    "risks d = []" "benefits d = []" "unclear_terms d = []" "overall_rating d = s_bezopasen"
    by blast
  with ex_neutral_no_keywords show ?thesis by simp
qed

section \<open>The analyzer and the chat handler never raise\<close>

lemma bullet_lines_total:
  "list_all (has_keys k1 k2) ds \<Longrightarrow> \<exists>ls. bullet_lines k1 k2 ds = Inr ls"
  by (induction ds) (auto simp: has_keys_def getitem_def dict_get_def)

lemma well_formed_answer:
  assumes "well_formed d"
  shows "\<exists>a. choose_answer d q = Inr a"
proof -
  from assms have w:
    "list_all (has_keys k_type k_recommendation) (risks d)"
    "list_all (has_keys k_type k_keyword) (benefits d)"
    "list_all (has_keys k_phrase k_explanation) (unclear_terms d)"
    by (simp_all add: well_formed_def)
  obtain l1 where "bullet_lines k_type k_recommendation (risks d) = Inr l1"
    using bullet_lines_total[OF w(1)] by blast
  moreover obtain l2 where "bullet_lines k_type k_keyword (benefits d) = Inr l2"
    using bullet_lines_total[OF w(2)] by blast
  moreover obtain l3 where "bullet_lines k_phrase k_explanation (unclear_terms d) = Inr l3"
    using bullet_lines_total[OF w(3)] by blast
  ultimately show ?thesis
    by (simp add: choose_answer_def Let_def risk_answer_def benefit_answer_def unclear_answer_def)
qed

lemma analyze_well_formed:
  assumes "analyze_document text fname u n = Inr d"
  shows "well_formed d"
proof -
  note f = analyze_document_fields[OF assms]
  have "has_keys k_type k_recommendation r" if "r \<in> set (risks d)" for r
    using risk_loop_elem[OF that[unfolded f(4)]] by (auto simp: has_keys_def risk_dict_get)
  moreover have "has_keys k_type k_keyword r" if "r \<in> set (benefits d)" for r
    using benefit_loop_elem[OF that[unfolded f(5)]] by (auto simp: has_keys_def benefit_dict_get)
  moreover have "has_keys k_phrase k_explanation r" if "r \<in> set (unclear_terms d)" for r
    using unclear_loop_elem[OF that[unfolded f(6)]] by (auto simp: has_keys_def unclear_dict_get)
  ultimately show ?thesis by (simp add: well_formed_def list_all_iff)
qed

lemma chat_keeps_documents:
  "documents_storage (snd (chat_with_document s message n)) = documents_storage s"
  by (simp add: chat_with_document_def Let_def split: option.splits sum.splits)

lemma reachable_well_formed:
  "reachable s \<Longrightarrow> documents_storage s i = Some d \<Longrightarrow> well_formed d"
proof (induction arbitrary: i d rule: reachable.induct)
  case empty_store
  then show ?case by simp
next
  case (analyzed s t fname u n d')
  then show ?case by (auto simp: analyze_well_formed split: if_splits)
next
  case (chatted s message n)
  then show ?case by (simp add: chat_keeps_documents)
qed

text \<open>
  Claim C9. For every text, the empty one and those under 50 characters included, the
  analyzer returns an analysis and raises nothing, and for that analysis and every
  question the chat responder returns an answer. The same holds for every analysis held
  by a store that the two handlers can produce: the chat handler, asked about a stored
  document, returns a response with the responder's answer.
\<close>

theorem analyzer_and_responder_total:
  "(\<exists>d. analyze_document text fname u n = Inr d \<and> (\<forall>q. \<exists>a. choose_answer d q = Inr a)) \<and>
   (reachable s \<and> documents_storage s i = Some d' \<longrightarrow>
      (\<exists>a. choose_answer d' q' = Inr a \<and>
           fst (chat_with_document s \<lparr>msg_document_id = i, question = q'\<rparr> n') =
             Inr \<lparr>answer = a, resp_document_id = i\<rparr>))"
proof -
  obtain d where d: "analyze_document text fname u n = Inr d"
    using analyze_document_Inr[of "text" fname u n] by blast
  from analyze_well_formed[OF d] have "\<forall>q. \<exists>a. choose_answer d q = Inr a"
    using well_formed_answer by blast
  moreover have "\<exists>a. choose_answer d' q' = Inr a \<and>
           fst (chat_with_document s \<lparr>msg_document_id = i, question = q'\<rparr> n') =
             Inr \<lparr>answer = a, resp_document_id = i\<rparr>"
    if "reachable s" "documents_storage s i = Some d'"
  proof -
    from reachable_well_formed[OF that] obtain a where "choose_answer d' q' = Inr a"
      using well_formed_answer by blast
    with that(2) show ?thesis by (simp add: chat_with_document_def Let_def)
  qed
  ultimately show ?thesis using d by blast
qed

lemma ex_store_document:
  "\<exists>d. analyze_document ex_shtraf_text ex_filename ex_id ex_now = Inr d \<and>
       ex_store = \<lparr>documents_storage = Map.empty(ex_id \<mapsto> d), chat_history = Map.empty\<rparr>"
proof -
  obtain d where d: "analyze_document ex_shtraf_text ex_filename ex_id ex_now = Inr d"
    using analyze_document_Inr[of ex_shtraf_text ex_filename ex_id ex_now] by blast
  with analyze_document_fields(1)[OF d] show ?thesis by (simp add: ex_store_def)
qed

lemma ex_store_reachable: "reachable ex_store"
proof -
  from ex_store_document obtain d where
    d: "analyze_document ex_shtraf_text ex_filename ex_id ex_now = Inr d"
    and s: "ex_store = \<lparr>documents_storage = Map.empty(ex_id \<mapsto> d), chat_history = Map.empty\<rparr>"
    by blast
  from reachable.analyzed[OF reachable.empty_store d] analyze_document_fields(1)[OF d]
  show ?thesis by (simp add: s)
qed

theorem analyzer_and_responder_total_witness:
  "reachable ex_store \<and> documents_storage ex_store ex_id \<noteq> None \<and>
   map_sum id resp_document_id
     (fst (chat_with_document ex_store \<lparr>msg_document_id = ex_id, question = ex_q_sign\<rparr> ex_now)) =
     Inr ex_id"
proof -
  from ex_store_document obtain d where
    s: "ex_store = \<lparr>documents_storage = Map.empty(ex_id \<mapsto> d), chat_history = Map.empty\<rparr>"
    by blast
  have l: "documents_storage ex_store ex_id = Some d" by (simp add: s)
  from analyzer_and_responder_total[of ex_shtraf_text ex_filename ex_id ex_now ex_store ex_id d
      ex_q_sign ex_now] ex_store_reachable l
  obtain a where
    "fst (chat_with_document ex_store \<lparr>msg_document_id = ex_id, question = ex_q_sign\<rparr> ex_now) =
       Inr \<lparr>answer = a, resp_document_id = ex_id\<rparr>"
    by blast
  with ex_store_reachable l show ?thesis by simp
qed

section \<open>The chat handler\<close>

text \<open>
  Claim C5. For every analysis and every question, the answer chosen by the
  \<open>if\<close>/\<open>elif\<close> chain is the rendering of the first family, in the order risk,
  benefit, ambiguity, decision, whose word list has a word in the lower-cased question,
  and of the fallback family when none has. In particular a question with a risk word and
  a benefit word gets the risk answer.
\<close>

theorem chat_family_priority:
  "choose_answer document q = render (classify (py_lower q)) document \<and>
   (any_word risk_words (py_lower q) \<and> any_word benefit_words (py_lower q) \<longrightarrow>
      classify (py_lower q) = RiskFamily \<and> choose_answer document q = risk_answer document)"
  by (simp add: choose_answer_def classify_def family_priority_def Let_def)

theorem chat_family_priority_witness:
  "any_word risk_words (py_lower ex_q_risks_and_benefits) \<and>
   any_word benefit_words (py_lower ex_q_risks_and_benefits) \<and>
   map_sum id (\<lambda>d. choose_answer d ex_q_risks_and_benefits)
     (analyze_document ex_shtraf_text ex_filename ex_id ex_now) =
     Inr (Inr (ans_risks_head @ s_bullet @ rt_shtrafnye_sankcii @ s_colon @
               s_rec_prefix @ kw_shtraf @ s_quote))"
proof -
  have r: "any_word risk_words (py_lower ex_q_risks_and_benefits)"
    by (simp add: any_word_def risk_words_def py_lower_def lower_cp_def
        ex_q_risks_and_benefits_def literal_defs)
  have b: "any_word benefit_words (py_lower ex_q_risks_and_benefits)"
    by (simp add: any_word_def benefit_words_def py_lower_def lower_cp_def
        ex_q_risks_and_benefits_def literal_defs)
  obtain d where d: "analyze_document ex_shtraf_text ex_filename ex_id ex_now = Inr d"
    using analyze_document_Inr[of ex_shtraf_text ex_filename ex_id ex_now] by blast
  have "risks d = [risk_dict rt_shtrafnye_sankcii kw_shtraf ex_shtraf_text]"
    using analyze_document_fields(4)[OF d] ex_shtraf_risks by simp
  from ex_shtraf_risk_answer[OF this] chat_family_priority[of d ex_q_risks_and_benefits] r b
  have "choose_answer d ex_q_risks_and_benefits =
     Inr (ans_risks_head @ s_bullet @ rt_shtrafnye_sankcii @ s_colon @
          s_rec_prefix @ kw_shtraf @ s_quote)"
    by simp
  with d r b show ?thesis by simp
qed

text \<open>
  Claim C6. When the document id of a chat request is not a key of the document store,
  the handler raises the HTTP error 404 and leaves the whole store, the chat histories
  included, as it was.
\<close>

theorem chat_unknown_document:
  "documents_storage s (msg_document_id message) = None \<Longrightarrow>
     chat_with_document s message n = (Inl (HTTPException 404 detail_not_found), s) \<and>
     chat_history (snd (chat_with_document s message n)) = chat_history s"
  by (simp add: chat_with_document_def)

theorem chat_unknown_document_witness:
  "documents_storage ex_store (msg_document_id \<lparr>msg_document_id = ex_other_id, question = ex_q_sign\<rparr>)
     = None \<and>
   chat_with_document ex_store \<lparr>msg_document_id = ex_other_id, question = ex_q_sign\<rparr> ex_now =
     (Inl (HTTPException 404 detail_not_found), ex_store)"
proof -
  from ex_store_document obtain d where
    s: "ex_store = \<lparr>documents_storage = Map.empty(ex_id \<mapsto> d), chat_history = Map.empty\<rparr>"
    by blast
  have "ex_id \<noteq> ex_other_id" by (simp add: ex_id_def ex_other_id_def)
  then have l: "documents_storage ex_store
      (msg_document_id \<lparr>msg_document_id = ex_other_id, question = ex_q_sign\<rparr>) = None"
    by (simp add: s)
  from chat_unknown_document[OF l, of ex_now] l show ?thesis by simp
qed

section \<open>The stored excerpt\<close>

lemma excerpt_take:
  "excerpt text = (if 2000 < length text then take 2000 text @ s_marker else text)"
  by (simp add: excerpt_def py_slice_def)

lemma length_marker: "length s_marker = 3"
  by (simp add: s_marker_def)

text \<open>
  Claim C4, as amended. For every text the stored excerpt is the first 2000 characters of
  the text followed by the marker "..." when the text is longer than 2000, and the text
  itself otherwise; its length is at most 2000 plus the length of the marker. The excerpt
  ends with the marker exactly when the text was truncated or itself ends with "...".
\<close>

theorem excerpt_truncation:
  "\<exists>d. analyze_document text fname u n = Inr d \<and>
     text_content d = (if 2000 < length text then take 2000 text @ s_marker else text) \<and>
     length (text_content d) \<le> 2000 + length s_marker \<and>
     (suffix s_marker (text_content d) \<longleftrightarrow> 2000 < length text \<or> suffix s_marker text)"
proof -
  obtain d where d: "analyze_document text fname u n = Inr d"
    using analyze_document_Inr[of "text" fname u n] by blast
  have c: "text_content d = (if 2000 < length text then take 2000 text @ s_marker else text)"
    using analyze_document_fields(3)[OF d] by (simp add: excerpt_take)
  have "length (text_content d) \<le> 2000 + length s_marker"
    unfolding c by simp
  moreover have "suffix s_marker (text_content d) \<longleftrightarrow> 2000 < length text \<or> suffix s_marker text"
    unfolding c by (simp add: suffix_def)
  ultimately show ?thesis using d c by blast
qed

theorem excerpt_truncation_witness:
  "map_sum id text_content (analyze_document ex_long_text ex_filename ex_id ex_now) =
     Inr (replicate 2000 97 @ s_marker)"
proof -
  from excerpt_truncation[of ex_long_text ex_filename ex_id ex_now]
  obtain d where "analyze_document ex_long_text ex_filename ex_id ex_now = Inr d"
    "text_content d =
       (if 2000 < length ex_long_text then take 2000 ex_long_text @ s_marker else ex_long_text)"
    by blast
  then show ?thesis by (simp add: ex_long_text_def)
qed

text \<open>
  The claim as stated fails: a text of 66 characters that ends with "..." is stored
  unchanged, so its excerpt ends with the marker although nothing was truncated.
\<close>

theorem excerpt_marker_counterexample:
  "map_sum id text_content (analyze_document ex_ellipsis_text ex_filename ex_id ex_now) =
     Inr ex_ellipsis_text \<and>
   suffix s_marker ex_ellipsis_text \<and> length ex_ellipsis_text \<le> 2000"
proof -
  obtain d where d: "analyze_document ex_ellipsis_text ex_filename ex_id ex_now = Inr d"
    using analyze_document_Inr[of ex_ellipsis_text ex_filename ex_id ex_now] by blast
  have l: "length ex_ellipsis_text \<le> 2000" by (simp add: ex_ellipsis_text_def)
  then have "text_content d = ex_ellipsis_text"
    using analyze_document_fields(3)[OF d] by (simp add: excerpt_take)
  moreover have "suffix s_marker ex_ellipsis_text"
    by (simp add: suffix_to_prefix s_marker_def ex_ellipsis_text_def)
  ultimately show ?thesis using d l by simp
qed

lemma finding_keyword:
  assumes "analyze_document text fname u n = Inr d"
    and "(r \<in> set (risks d) \<or> r \<in> set (benefits d)) \<and> dict_get r k_keyword = Some kw \<or>
         r \<in> set (unclear_terms d) \<and> dict_get r k_phrase = Some kw"
  shows "py_in kw (py_lower text) \<and> kw \<in> set configured_keywords \<and>
         dict_get r k_context = Some (find_context text (py_lower text) kw)"
proof -
  note f = analyze_document_fields[OF assms(1)]
  from assms(2) consider
    (risk) "r \<in> set (risks d)" "dict_get r k_keyword = Some kw"
    | (benefit) "r \<in> set (benefits d)" "dict_get r k_keyword = Some kw"
    | (unclear) "r \<in> set (unclear_terms d)" "dict_get r k_phrase = Some kw"
    by blast
  then show ?thesis
  proof cases
    case risk
    from risk_loop_elem[OF risk(1)[unfolded f(4)]] obtain rt kws k where
      k: "(rt, kws) \<in> set risk_patterns" "k \<in> set kws" "py_in k (py_lower text)"
         "r = risk_dict rt k (find_context text (py_lower text) k)" by blast
    from k(1,2) have "k \<in> set configured_keywords" by (force simp: configured_keywords_def)
    moreover from risk(2) k(4) have "kw = k" by (simp add: risk_dict_get)
    ultimately show ?thesis using k(3,4) by (simp add: risk_dict_get)
  next
    case benefit
    from benefit_loop_elem[OF benefit(1)[unfolded f(5)]] obtain bt kws k where
      k: "(bt, kws) \<in> set benefit_patterns" "k \<in> set kws" "py_in k (py_lower text)"
         "r = benefit_dict bt k (find_context text (py_lower text) k)" by blast
    from k(1,2) have "k \<in> set configured_keywords" by (force simp: configured_keywords_def)
    moreover from benefit(2) k(4) have "kw = k" by (simp add: benefit_dict_get)
    ultimately show ?thesis using k(3,4) by (simp add: benefit_dict_get)
  next
    case unclear
    from unclear_loop_elem[OF unclear(1)[unfolded f(6)]] obtain p where
      p: "p \<in> set unclear_patterns" "py_in p (py_lower text)"
         "r = unclear_dict p (find_context text (py_lower text) p)" by blast
    from p(1) have "p \<in> set configured_keywords" by (simp add: configured_keywords_def)
    moreover from unclear(2) p(3) have "kw = p" by (simp add: unclear_dict_get)
    ultimately show ?thesis using p(2,3) by (simp add: unclear_dict_get)
  qed
qed

text \<open>
  What holds of every finding (a risk or a benefit with its keyword, an unclear term with
  its phrase): the context is the slice of the text from \<open>max(0, start - 100)\<close> to
  \<open>min(len(text), start + 200)\<close>, stripped of white space at both ends, where
  \<open>start\<close> is the index of the first occurrence of the keyword in the lower-cased
  text, and it has at most 300 characters. When no U+0130 stands in the text before the
  end of the match, the offsets of the text and of its lower-cased copy agree up to
  there, and the lower-cased context contains the keyword.
\<close>

lemma context_window_general:
  assumes "analyze_document text fname u n = Inr d"
    and "(r \<in> set (risks d) \<or> r \<in> set (benefits d)) \<and> dict_get r k_keyword = Some kw \<or>
         r \<in> set (unclear_terms d) \<and> dict_get r k_phrase = Some kw"
  shows "\<exists>start ctx.
           first_occurrence kw (py_lower text) start \<and>
           ctx = py_strip (py_slice text (max 0 (int start - 100))
                                        (min (int (length text)) (int start + 200))) \<and>
           dict_get r k_context = Some ctx \<and>
           length ctx \<le> 300 \<and>
           (304 \<notin> set (take (start + length kw) text) \<longrightarrow> py_in kw (py_lower ctx))"
proof -
  from finding_keyword[OF assms] have
    found: "py_in kw (py_lower text)" and conf: "kw \<in> set configured_keywords" and
    ctx: "dict_get r k_context = Some (find_context text (py_lower text) kw)"
    by simp_all
  from py_find_first[OF found] obtain start where
    start: "py_find (py_lower text) kw = int start" "first_occurrence kw (py_lower text) start"
    by blast
  define c where "c = py_strip (py_slice text (max 0 (int start - 100))
                                        (min (int (length text)) (int start + 200)))"
  have fc: "find_context text (py_lower text) kw = c"
    by (simp add: find_context_def Let_def start(1) c_def)
  have l: "length c \<le> 300"
    using length_find_context[of "text" "py_lower text" kw] by (simp add: fc)
  from conf keywords_shape have
    shape: "kw \<noteq> []" "length kw \<le> 200" "\<not> isspace (hd kw)" "\<not> isspace (last kw)"
    by (auto simp: list_all_iff)
  have "py_in kw (py_lower c)" if "304 \<notin> set (take (start + length kw) text)"
    unfolding c_def by (rule context_contains_keyword[OF that start(2) shape])
  with start(2) ctx fc l c_def show ?thesis by blast
qed

lemma ex_shtraf_occurrence: "first_occurrence kw_shtraf (py_lower ex_shtraf_text) 0"
  unfolding ex_shtraf_lower
  by (simp add: first_occurrence_def ex_shtraf_text_def kw_shtraf_def)

text \<open>
  The first example text: the keyword is found at index 0 and the context is the whole
  sentence, which contains the keyword once lower-cased.
\<close>

lemma context_window_example:
  "map_sum id risks (analyze_document ex_shtraf_text ex_filename ex_id ex_now) =
     Inr [risk_dict rt_shtrafnye_sankcii kw_shtraf ex_shtraf_text] \<and>
   dict_get (risk_dict rt_shtrafnye_sankcii kw_shtraf ex_shtraf_text) k_context =
     Some ex_shtraf_text \<and>
   first_occurrence kw_shtraf (py_lower ex_shtraf_text) 0 \<and>
   304 \<notin> set (take (0 + length kw_shtraf) ex_shtraf_text) \<and>
   length ex_shtraf_text \<le> 300 \<and>
   py_in kw_shtraf (py_lower ex_shtraf_text)"
proof -
  obtain d where d: "analyze_document ex_shtraf_text ex_filename ex_id ex_now = Inr d"
    using analyze_document_Inr[of ex_shtraf_text ex_filename ex_id ex_now] by blast
  define r where "r = risk_dict rt_shtrafnye_sankcii kw_shtraf ex_shtraf_text"
  have rs: "risks d = [r]"
    using analyze_document_fields(4)[OF d] ex_shtraf_risks by (simp add: r_def)
  have k: "dict_get r k_keyword = Some kw_shtraf" and c: "dict_get r k_context = Some ex_shtraf_text"
    by (simp_all add: r_def risk_dict_get)
  from rs k have h: "(r \<in> set (risks d) \<or> r \<in> set (benefits d)) \<and>
      dict_get r k_keyword = Some kw_shtraf \<or>
      r \<in> set (unclear_terms d) \<and> dict_get r k_phrase = Some kw_shtraf"
    by simp
  have no: "304 \<notin> set (take (0 + length kw_shtraf) ex_shtraf_text)"
    by (simp add: kw_shtraf_def ex_shtraf_text_def)
  from context_window_general[OF d h] obtain start ctx where
    g: "first_occurrence kw_shtraf (py_lower ex_shtraf_text) start"
       "dict_get r k_context = Some ctx" "length ctx \<le> 300"
       "304 \<notin> set (take (start + length kw_shtraf) ex_shtraf_text) \<longrightarrow>
          py_in kw_shtraf (py_lower ctx)"
    by blast
  from first_occurrence_unique[OF g(1) ex_shtraf_occurrence] have "start = 0" .
  moreover from g(2) c have "ctx = ex_shtraf_text" by simp
  ultimately have "length ex_shtraf_text \<le> 300" "py_in kw_shtraf (py_lower ex_shtraf_text)"
    using g(3,4) no by simp_all
  with d rs c no ex_shtraf_occurrence show ?thesis
    by (simp add: r_def)
qed

text \<open>
  Claim C2. The context of a finding is the stripped slice described above and has at
  most 300 characters (lemma \<open>context_window_general\<close>); the claim adds that the
  context always contains the triggering substring. The code breaks this last part.
  Lines 147-150 find the offset in \<open>text_lower\<close> and cut the window from \<open>text\<close>,
  and U+0130 takes one place in the text and two in the lower-cased copy. In the text of
  101 times U+0130 followed by "shtraf" the match stands at index 101 of the text and is
  found at index 202 of the copy; the window is cut from index 102 of the text, and the
  context of the one risk is "traf", which does not contain the keyword, lower-cased or
  not.
\<close>

theorem context_window_failing_input:
  "map_sum id risks (analyze_document ex_dotted_text ex_filename ex_id ex_now) =
     Inr [risk_dict rt_shtrafnye_sankcii kw_shtraf [1090, 1088, 1072, 1092]] \<and>
   py_find (py_lower ex_dotted_text) kw_shtraf = 202 \<and>
   py_lower (take 5 (drop 101 ex_dotted_text)) = kw_shtraf \<and>
   \<not> py_in kw_shtraf [1090, 1088, 1072, 1092] \<and>
   \<not> py_in kw_shtraf (py_lower [1090, 1088, 1072, 1092])"
proof -
  obtain d where d: "analyze_document ex_dotted_text ex_filename ex_id ex_now = Inr d"
    using analyze_document_Inr[of ex_dotted_text ex_filename ex_id ex_now] by blast
  have a: "map_sum id risks (analyze_document ex_dotted_text ex_filename ex_id ex_now) =
     Inr [risk_dict rt_shtrafnye_sankcii kw_shtraf [1090, 1088, 1072, 1092]]"
    using analyze_document_fields(4)[OF d] ex_dotted_risks by (simp add: d)
  have b: "py_lower (take 5 (drop 101 ex_dotted_text)) = kw_shtraf"
    by (simp add: ex_dotted_text_def kw_shtraf_def py_lower_def lower_cp_def)
  have e: "\<not> py_in kw_shtraf [1090, 1088, 1072, 1092]"
    by (simp add: kw_shtraf_def)
  have f: "\<not> py_in kw_shtraf (py_lower [1090, 1088, 1072, 1092])"
    by (simp add: kw_shtraf_def py_lower_def lower_cp_def)
  from a ex_dotted_find b e f show ?thesis by blast
qed

end
